theory Spec2Isabelle
  imports Complex_Main "HOL-Library.Char_ord" "HOL-Library.List_Lexorder"
begin

section \<open>Numbers, arrays and the numpy primitives of budget_optimizer.py\<close>

text \<open>
  Python floats are idealised as reals: arithmetic is exact, there is no overflow and
  no NaN. The only infinity of the source, \<open>np.inf\<close> in the upper bounds of the two
  aggregate allocators, is a constructor of \<open>ubound\<close>. numpy's division by zero gives
  inf or nan where HOL's gives 0, so every theorem that speaks about a quotient by
  \<open>spend_scaler\<close> assumes the scaler is not zero.
\<close>

datatype error =
    Exception string
  | KeyError string
  | IndexingError string
  | ValueError string

datatype ndarray = Array1 "real list" | Array2 "real list list"

fun flatten :: "ndarray \<Rightarrow> real list" where
  "flatten (Array1 xs) = xs"
| "flatten (Array2 xss) = concat xss"

definition np_zeros :: "nat \<Rightarrow> real list" where
  "np_zeros n = replicate n 0"

definition np_ones :: "nat \<Rightarrow> real list" where
  "np_ones n = replicate n 1"

definition np_sum :: "real list \<Rightarrow> real" where
  "np_sum xs = sum_list xs"

text \<open>\<open>np.sum\<close> of a boolean mask counts its True entries.\<close>

definition np_sum_mask :: "bool list \<Rightarrow> nat" where
  "np_sum_mask msk = length (filter (\<lambda>b. b) msk)"

text \<open>
  A two-dimensional array is a list of rows. \<open>np.sum(m)\<close> adds every cell,
  \<open>np.sum(m, 0)\<close> adds along the rows and gives one total per column, \<open>np.sum(m, -1)\<close>
  gives one total per row. A list of rows forgets its number of columns when it has no
  row, so the column count of the array's shape is passed to \<open>np_sum_axis0\<close>.
\<close>

definition np_sum2 :: "real list list \<Rightarrow> real" where
  "np_sum2 m = sum_list (concat m)"

definition np_sum_axis0 :: "nat \<Rightarrow> real list list \<Rightarrow> real list" where
  "np_sum_axis0 ncols m = map (\<lambda>j. sum_list (map (\<lambda>r. r ! j) m)) [0..<ncols]"

definition np_sum_axis1 :: "real list list \<Rightarrow> real list" where
  "np_sum_axis1 m = map sum_list m"

text \<open>
  \<open>np.round(x, d)\<close> multiplies by \<open>10 ^ d\<close>, rounds to the nearest integer with ties
  going to the even one (\<open>rint\<close>), and divides by \<open>10 ^ d\<close>.
\<close>

definition rint :: "real \<Rightarrow> int" where
  "rint x =
     (let f = \<lfloor>x\<rfloor>; d = x - of_int f
      in if d < 1 / 2 then f
         else if 1 / 2 < d then f + 1
         else if even f then f else f + 1)"

definition np_round :: "real \<Rightarrow> nat \<Rightarrow> real" where
  "np_round x decimals = of_int (rint (x * 10 ^ decimals)) / 10 ^ decimals"

text \<open>
  \<open>x.reshape(-1, ncols)\<close>: the rows of \<open>ncols\<close> consecutive entries. numpy raises
  ValueError when the size is not a multiple of \<open>ncols\<close>, and when \<open>ncols\<close> is 0.
\<close>

definition reshape_rows :: "real list \<Rightarrow> nat \<Rightarrow> error + real list list" where
  "reshape_rows xs ncols =
     (if 0 < ncols \<and> length xs mod ncols = 0
      then Inr (map (\<lambda>i. take ncols (drop (i * ncols) xs)) [0..<length xs div ncols])
      else Inl (ValueError ''cannot reshape array''))"

text \<open>
  Broadcasting of one axis: two lengths are compatible when they are equal or one of them
  is 1, and the axis of length 1 is repeated.
\<close>

definition broadcast_len :: "nat \<Rightarrow> nat \<Rightarrow> error + nat" where
  "broadcast_len m n =
     (if m = n then Inr n
      else if m = 1 then Inr n
      else if n = 1 then Inr m
      else Inl (ValueError ''operands could not be broadcast together''))"

definition broadcast_to :: "nat \<Rightarrow> real list \<Rightarrow> real list" where
  "broadcast_to n xs = (if length xs = n then xs else replicate n (hd xs))"

section \<open>The data container\<close>

text \<open>
  The pandas data frame of the shell, restricted to its numeric columns: the column
  names and one list of values per row (time step), a value per column.
  \<open>df.loc[mask, channels].values\<close> selects the rows whose mask entry is True and, in
  the order of \<open>channels\<close>, the named columns; \<open>df.loc[mask, channels] = m\<close> writes the
  rows of \<open>m\<close> there. A missing column is a KeyError, a mask of the wrong length an
  IndexingError, a block of the wrong shape a ValueError.
\<close>

record DataFrame =
  columns :: "string list"
  rows :: "real list list"

fun column_index :: "string list \<Rightarrow> string \<Rightarrow> nat option" where
  "column_index [] c = None"
| "column_index (x # xs) c =
     (if x = c then Some 0 else map_option Suc (column_index xs c))"

fun column_indices :: "string list \<Rightarrow> string list \<Rightarrow> error + nat list" where
  "column_indices cols [] = Inr []"
| "column_indices cols (c # cs) =
     (case column_index cols c of
        None \<Rightarrow> Inl (KeyError c)
      | Some i \<Rightarrow>
          (case column_indices cols cs of
             Inl e \<Rightarrow> Inl e
           | Inr js \<Rightarrow> Inr (i # js)))"

definition loc_get :: "DataFrame \<Rightarrow> bool list \<Rightarrow> string list \<Rightarrow> error + real list list" where
  "loc_get frame msk channels =
     (if length msk = length (rows frame)
      then (case column_indices (columns frame) channels of
              Inl e \<Rightarrow> Inl e
            | Inr js \<Rightarrow>
                Inr (map (\<lambda>r. map (\<lambda>j. r ! j) js)
                       (map fst (filter snd (zip (rows frame) msk)))))
      else Inl (IndexingError ''Item wrong length''))"

definition set_cols :: "real list \<Rightarrow> nat list \<Rightarrow> real list \<Rightarrow> real list" where
  "set_cols r js vs = fold (\<lambda>(j, v) acc. acc[j := v]) (zip js vs) r"

fun assign_rows :: "real list list \<Rightarrow> bool list \<Rightarrow> nat list \<Rightarrow> real list list \<Rightarrow> real list list" where
  "assign_rows (r # rs) (b # bs) js m =
     (if b then (case m of
                   [] \<Rightarrow> r # assign_rows rs bs js []
                 | v # vs \<Rightarrow> set_cols r js v # assign_rows rs bs js vs)
      else r # assign_rows rs bs js m)"
| "assign_rows rs bs js m = rs"

definition loc_set :: "DataFrame \<Rightarrow> bool list \<Rightarrow> string list \<Rightarrow> real list list \<Rightarrow> error + DataFrame" where
  "loc_set frame msk channels m =
     (if length msk = length (rows frame)
      then (case column_indices (columns frame) channels of
              Inl e \<Rightarrow> Inl e
            | Inr js \<Rightarrow>
                if length m = np_sum_mask msk
                   \<and> list_all (\<lambda>v. length v = length channels) m
                then Inr (frame\<lparr>rows := assign_rows (rows frame) msk js m\<rparr>)
                else Inl (ValueError ''shape mismatch''))
      else Inl (IndexingError ''Item wrong length''))"

section \<open>The solver interface\<close>

text \<open>
  \<open>scipy.optimize.Bounds\<close> and \<open>scipy.optimize.LinearConstraint\<close> as the source builds
  them, and \<open>scipy.optimize.minimize\<close> as a parameter of the model: a function of the
  objective, the starting point, the method, the bounds, the constraints and the options,
  which returns the solution vector \<open>sol.x\<close> or raises.
\<close>

datatype ubound = Finite real | PosInf

record Bounds =
  bounds_lb :: "real list"
  bounds_ub :: "ubound list"

record LinearConstraint =
  con_A :: "real list"
  con_lb :: "real list"
  con_ub :: "real list"

record options =
  opt_disp :: bool
  opt_maxiter :: int
  opt_ftol :: real
  opt_eps :: "real option"

type_synonym objective = "real list \<Rightarrow> error + real"

type_synonym minimize =
  "objective \<Rightarrow> real list \<Rightarrow> string \<Rightarrow> Bounds \<Rightarrow> LinearConstraint list \<Rightarrow> options
     \<Rightarrow> error + real list"






section \<open>The shell and the three allocators\<close>

text \<open>
  \<open>MMMShell\<close> is not part of budget_optimizer.py. Its constructor is a parameter of the
  three constructors below: a function of the target regressors, the start and the end
  which gives the attributes the allocators read, or raises.
\<close>

record MMMShell =
  df :: DataFrame
  input_mask :: "bool list"
  base_comp_input :: "real list"
  start :: string
  end' :: string

type_synonym shell_init = "string list \<Rightarrow> string \<Rightarrow> string \<Rightarrow> error + MMMShell"

text \<open>
  The three classes all derive from \<open>MMMShell\<close> and not from each other. Their common
  attributes are declared once, and the records of the aggregate allocators extend the
  record of the full-grid one only to share the field names; every method below is
  defined for one class. An attribute that the constructor has not assigned yet holds an
  empty placeholder, which the constructor overwrites before it returns. The logger and
  the model take no part in any computed value and are left out.
\<close>

record BudgetOptimizer = MMMShell +
  optim_channels :: "string list"
  budget_start :: string
  budget_end :: string
  response_scaler :: real
  spend_scaler :: real
  constraints :: "LinearConstraint list"
  budget_mask :: "bool list"
  init_spend_matrix :: "real list list"
  curr_spend_matrix :: "real list list"
  n_optim_channels :: nat
  total_budget :: real
  n_budget_steps :: nat
  budget_bounds :: Bounds

record ChannelBudgetOptimizer = BudgetOptimizer +
  init_spend_array :: "real list"
  curr_spend_array :: "real list"
  weight :: "real list"

record TimeBudgetOptimizer = ChannelBudgetOptimizer +
  lb_ratio :: real
  ub_ratio :: real

definition abstract_objective_message :: string where
  "abstract_objective_message =
     ''Abstract objective function. Child class needs to override this method to have concrete result.''"

definition choose_total_budget :: "real option \<Rightarrow> real \<Rightarrow> real" where
  \<comment> \<open>\<open>if total_budget_override is not None and total_budget_override > 0: ... else: ...\<close>\<close>
  "choose_total_budget total_budget_override initial_sum =
     (case total_budget_override of
        None \<Rightarrow> initial_sum
      | Some v \<Rightarrow> if v > 0 then v else initial_sum)"

subsection \<open>BudgetOptimizer: every cell of the matrix is a decision variable\<close>

definition BudgetOptimizer_generate_total_budget_constraint ::
  "BudgetOptimizer \<Rightarrow> real \<Rightarrow> LinearConstraint" where
  "BudgetOptimizer_generate_total_budget_constraint self total_budget' =
     \<lparr>con_A = np_ones (n_budget_steps self * n_optim_channels self),
      con_lb = np_zeros 1,
      con_ub = map (\<lambda>v. v * total_budget' / spend_scaler self) (np_ones 1)\<rparr>"

definition BudgetOptimizer_set_constraints ::
  "BudgetOptimizer \<Rightarrow> LinearConstraint list \<Rightarrow> BudgetOptimizer" where
  "BudgetOptimizer_set_constraints self cs = self\<lparr>constraints := cs\<rparr>"

definition BudgetOptimizer_add_constraints ::
  "BudgetOptimizer \<Rightarrow> LinearConstraint list \<Rightarrow> BudgetOptimizer" where
  "BudgetOptimizer_add_constraints self cs = self\<lparr>constraints := constraints self @ cs\<rparr>"

definition BudgetOptimizer_init ::
  "shell_init \<Rightarrow> string \<Rightarrow> string \<Rightarrow> string list \<Rightarrow> real \<Rightarrow> real \<Rightarrow> real option
     \<Rightarrow> error + BudgetOptimizer" where
  "BudgetOptimizer_init MMMShell_init budget_start' budget_end' optim_channels'
       response_scaler' spend_scaler' total_budget_override =
     (let channels = sort optim_channels' in
      case MMMShell_init channels budget_start' budget_end' of
        Inl e \<Rightarrow> Inl e
      | Inr shell \<Rightarrow>
          (case loc_get (df shell) (input_mask shell) channels of
             Inl e \<Rightarrow> Inl e
           | Inr m \<Rightarrow>
               let self = \<lparr>df = df shell, input_mask = input_mask shell,
                            base_comp_input = base_comp_input shell,
                            start = start shell, end' = end' shell,
                            optim_channels = channels,
                            budget_start = start shell,
                            budget_end = end' shell,
                            response_scaler = response_scaler',
                            spend_scaler = spend_scaler',
                            constraints = [],
                            budget_mask = input_mask shell,
                            init_spend_matrix = m,
                            curr_spend_matrix = m,
                            n_optim_channels = length channels,
                            total_budget = choose_total_budget total_budget_override (np_sum2 m),
                            n_budget_steps = np_sum_mask (input_mask shell),
                            budget_bounds = \<lparr>bounds_lb = [], bounds_ub = []\<rparr>\<rparr>;
                   total_budget_constraint =
                     BudgetOptimizer_generate_total_budget_constraint self (total_budget self);
                   self = BudgetOptimizer_add_constraints self [total_budget_constraint]
               in Inr (self\<lparr>budget_bounds :=
                    \<lparr>bounds_lb = np_zeros (n_budget_steps self * n_optim_channels self),
                     bounds_ub = map (\<lambda>v. Finite (v * total_budget self / spend_scaler self))
                                   (np_ones (n_budget_steps self * n_optim_channels self))\<rparr>\<rparr>)))"

definition BudgetOptimizer_get_df :: "BudgetOptimizer \<Rightarrow> DataFrame" where
  "BudgetOptimizer_get_df self = df self"

definition BudgetOptimizer_get_current_state :: "BudgetOptimizer \<Rightarrow> real list list" where
  "BudgetOptimizer_get_current_state self = curr_spend_matrix self"

definition BudgetOptimizer_get_total_budget :: "BudgetOptimizer \<Rightarrow> real" where
  "BudgetOptimizer_get_total_budget self = total_budget self"

definition BudgetOptimizer_get_init_state :: "BudgetOptimizer \<Rightarrow> real list list" where
  "BudgetOptimizer_get_init_state self = init_spend_matrix self"

definition BudgetOptimizer_objective_func :: "BudgetOptimizer \<Rightarrow> real list \<Rightarrow> error + real" where
  "BudgetOptimizer_objective_func self spend = Inl (Exception abstract_objective_message)"

text \<open>
  \<open>optimize\<close> calls \<open>self.objective_func\<close>, which a subclass overrides: the objective
  is a parameter, and \<open>BudgetOptimizer_objective_func self\<close> is its value for the base
  class. The result is the returned data frame and the updated instance.
\<close>

definition BudgetOptimizer_sol ::
  "minimize \<Rightarrow> objective \<Rightarrow> BudgetOptimizer \<Rightarrow> ndarray option \<Rightarrow> int \<Rightarrow> real option \<Rightarrow> real
     \<Rightarrow> error + real list" where
  \<comment> \<open>the starting point, the options and the call \<open>sol = optim.minimize(...)\<close>; the value is \<open>sol.x\<close>\<close>
  "BudgetOptimizer_sol minimize objective_func self init maxiter eps ftol =
     (let x0 = (case init of
                  None \<Rightarrow> map (\<lambda>v. v / spend_scaler self) (flatten (Array2 (init_spend_matrix self)))
                | Some a \<Rightarrow> map (\<lambda>v. v / spend_scaler self) (flatten a));
          opts = \<lparr>opt_disp = True, opt_maxiter = maxiter, opt_ftol = ftol, opt_eps = eps\<rparr>
      in minimize objective_func x0 ''SLSQP'' (budget_bounds self) (constraints self) opts)"

definition BudgetOptimizer_optimize ::
  "minimize \<Rightarrow> objective \<Rightarrow> BudgetOptimizer \<Rightarrow> ndarray option \<Rightarrow> int \<Rightarrow> real option \<Rightarrow> real
     \<Rightarrow> error + (DataFrame \<times> BudgetOptimizer)" where
  "BudgetOptimizer_optimize minimize objective_func self init maxiter eps ftol =
     (case BudgetOptimizer_sol minimize objective_func self init maxiter eps ftol of
           Inl e \<Rightarrow> Inl e
         | Inr sol_x \<Rightarrow>
             (case reshape_rows sol_x (n_optim_channels self) of
                Inl e \<Rightarrow> Inl e
              | Inr m \<Rightarrow>
                  let optim_spend_matrix = map (map (\<lambda>v. v * spend_scaler self)) m;
                      optim_spend_matrix = map (map (\<lambda>v. np_round v 5)) optim_spend_matrix
                  in (case loc_set (BudgetOptimizer_get_df self) (budget_mask self)
                             (optim_channels self) optim_spend_matrix of
                        Inl e \<Rightarrow> Inl e
                      | Inr optim_df \<Rightarrow>
                          Inr (optim_df, self\<lparr>curr_spend_matrix := optim_spend_matrix\<rparr>))))"

subsection \<open>ChannelBudgetOptimizer: one total per channel, split over time by the weight\<close>

definition ChannelBudgetOptimizer_generate_total_budget_constraint ::
  "ChannelBudgetOptimizer \<Rightarrow> real \<Rightarrow> LinearConstraint" where
  "ChannelBudgetOptimizer_generate_total_budget_constraint self total_budget' =
     \<lparr>con_A = np_ones (n_optim_channels self),
      con_lb = np_zeros 1,
      con_ub = map (\<lambda>v. v * total_budget' / spend_scaler self) (np_ones 1)\<rparr>"

definition ChannelBudgetOptimizer_set_constraints ::
  "ChannelBudgetOptimizer \<Rightarrow> LinearConstraint list \<Rightarrow> ChannelBudgetOptimizer" where
  "ChannelBudgetOptimizer_set_constraints self cs = self\<lparr>constraints := cs\<rparr>"

definition ChannelBudgetOptimizer_add_constraints ::
  "ChannelBudgetOptimizer \<Rightarrow> LinearConstraint list \<Rightarrow> ChannelBudgetOptimizer" where
  "ChannelBudgetOptimizer_add_constraints self cs = self\<lparr>constraints := constraints self @ cs\<rparr>"

definition ChannelBudgetOptimizer_init ::
  "shell_init \<Rightarrow> string \<Rightarrow> string \<Rightarrow> string list \<Rightarrow> real \<Rightarrow> real \<Rightarrow> real option
     \<Rightarrow> real list option \<Rightarrow> error + ChannelBudgetOptimizer" where
  "ChannelBudgetOptimizer_init MMMShell_init budget_start' budget_end' optim_channels'
       response_scaler' spend_scaler' total_budget_override weight' =
     (case MMMShell_init optim_channels' budget_start' budget_end' of
        Inl e \<Rightarrow> Inl e
      | Inr shell \<Rightarrow>
          (case loc_get (df shell) (input_mask shell) optim_channels' of
             Inl e \<Rightarrow> Inl e
           | Inr m \<Rightarrow>
               let arr = np_sum_axis0 (length optim_channels') m;
                   self = \<lparr>df = df shell, input_mask = input_mask shell,
                            base_comp_input = base_comp_input shell,
                            start = start shell, end' = end' shell,
                            optim_channels = optim_channels',
                            budget_start = start shell,
                            budget_end = end' shell,
                            response_scaler = response_scaler',
                            spend_scaler = spend_scaler',
                            constraints = [],
                            budget_mask = input_mask shell,
                            init_spend_matrix = m,
                            curr_spend_matrix = m,
                            n_optim_channels = length optim_channels',
                            total_budget = choose_total_budget total_budget_override (np_sum arr),
                            n_budget_steps = np_sum_mask (input_mask shell),
                            budget_bounds = \<lparr>bounds_lb = [], bounds_ub = []\<rparr>,
                            init_spend_array = arr,
                            curr_spend_array = arr,
                            weight = []\<rparr>;
                   total_budget_constraint =
                     ChannelBudgetOptimizer_generate_total_budget_constraint self (total_budget self);
                   self = ChannelBudgetOptimizer_add_constraints self [total_budget_constraint];
                   self = self\<lparr>budget_bounds :=
                     \<lparr>bounds_lb = np_zeros (n_optim_channels self),
                      bounds_ub = map (\<lambda>v. PosInf) (np_ones (n_optim_channels self))\<rparr>\<rparr>;
                   self = (case weight' of
                             None \<Rightarrow> self\<lparr>weight := map (\<lambda>v. v / np_sum (base_comp_input self))
                                                       (base_comp_input self)\<rparr>
                           | Some w \<Rightarrow> self\<lparr>weight := w\<rparr>)
               in if length (weight self) = n_budget_steps self
                  then Inr self
                  else Inl (Exception ''Input weight has different length from budget period.'')))"

definition ChannelBudgetOptimizer_get_df :: "ChannelBudgetOptimizer \<Rightarrow> DataFrame" where
  "ChannelBudgetOptimizer_get_df self = df self"

definition ChannelBudgetOptimizer_get_current_state :: "ChannelBudgetOptimizer \<Rightarrow> real list" where
  "ChannelBudgetOptimizer_get_current_state self = curr_spend_array self"

definition ChannelBudgetOptimizer_get_current_spend_matrix ::
  "ChannelBudgetOptimizer \<Rightarrow> real list list" where
  "ChannelBudgetOptimizer_get_current_spend_matrix self = curr_spend_matrix self"

definition ChannelBudgetOptimizer_get_total_budget :: "ChannelBudgetOptimizer \<Rightarrow> real" where
  "ChannelBudgetOptimizer_get_total_budget self = total_budget self"

definition ChannelBudgetOptimizer_get_init_state :: "ChannelBudgetOptimizer \<Rightarrow> real list" where
  "ChannelBudgetOptimizer_get_init_state self = init_spend_array self"

definition ChannelBudgetOptimizer_get_init_spend_matrix ::
  "ChannelBudgetOptimizer \<Rightarrow> real list list" where
  "ChannelBudgetOptimizer_get_init_spend_matrix self = init_spend_matrix self"

definition ChannelBudgetOptimizer_objective_func ::
  "ChannelBudgetOptimizer \<Rightarrow> real list \<Rightarrow> error + real" where
  "ChannelBudgetOptimizer_objective_func self spend = Inl (Exception abstract_objective_message)"

text \<open>
  The product \<open>optim_spend_array * np.ones((n_budget_steps, n_optim_channels)) *
  np.expand_dims(self.weight, -1)\<close> broadcasts the array of totals along the columns and
  the weight, as a column, along the rows.
\<close>

definition ChannelBudgetOptimizer_sol ::
  "minimize \<Rightarrow> objective \<Rightarrow> ChannelBudgetOptimizer \<Rightarrow> ndarray option \<Rightarrow> int \<Rightarrow> real \<Rightarrow> real
     \<Rightarrow> error + real list" where
  \<comment> \<open>the starting point, the options and the call \<open>sol = optim.minimize(...)\<close>; the value is \<open>sol.x\<close>\<close>
  "ChannelBudgetOptimizer_sol minimize objective_func self init maxiter eps ftol =
     (let x0 = (case init of
                  None \<Rightarrow> map (\<lambda>v. v / spend_scaler self) (init_spend_array self)
                | Some a \<Rightarrow> map (\<lambda>v. v / spend_scaler self) (flatten a));
          opts = \<lparr>opt_disp = True, opt_maxiter = maxiter, opt_ftol = ftol, opt_eps = Some eps\<rparr>
      in minimize objective_func x0 ''SLSQP'' (budget_bounds self) (constraints self) opts)"

definition ChannelBudgetOptimizer_optimize ::
  "minimize \<Rightarrow> objective \<Rightarrow> ChannelBudgetOptimizer \<Rightarrow> ndarray option \<Rightarrow> int \<Rightarrow> real \<Rightarrow> real
     \<Rightarrow> error + (DataFrame \<times> ChannelBudgetOptimizer)" where
  "ChannelBudgetOptimizer_optimize minimize objective_func self init maxiter eps ftol =
     (case ChannelBudgetOptimizer_sol minimize objective_func self init maxiter eps ftol of
           Inl e \<Rightarrow> Inl e
         | Inr sol_x \<Rightarrow>
             let optim_spend_array = map (\<lambda>v. v * spend_scaler self) sol_x;
                 optim_spend_array = map (\<lambda>v. np_round v 5) optim_spend_array
             in (case broadcast_len (length optim_spend_array) (n_optim_channels self) of
                  Inl e \<Rightarrow> Inl e
                | Inr ncols \<Rightarrow>
                    (case broadcast_len (n_budget_steps self) (length (weight self)) of
                       Inl e \<Rightarrow> Inl e
                     | Inr nrows \<Rightarrow>
                         let optim_spend_matrix =
                               map (\<lambda>w. map (\<lambda>a. a * 1 * w) (broadcast_to ncols optim_spend_array))
                                 (broadcast_to nrows (weight self));
                             optim_spend_matrix = map (map (\<lambda>v. np_round v 5)) optim_spend_matrix
                         in (case loc_set (ChannelBudgetOptimizer_get_df self) (budget_mask self)
                                    (optim_channels self) optim_spend_matrix of
                               Inl e \<Rightarrow> Inl e
                             | Inr optim_df \<Rightarrow>
                                 Inr (optim_df, self\<lparr>curr_spend_matrix := optim_spend_matrix,
                                                     curr_spend_array := optim_spend_array\<rparr>)))))"

subsection \<open>TimeBudgetOptimizer: one total per time step, split over channels by the weight\<close>

definition TimeBudgetOptimizer_generate_total_budget_constraint ::
  "TimeBudgetOptimizer \<Rightarrow> real \<Rightarrow> LinearConstraint" where
  "TimeBudgetOptimizer_generate_total_budget_constraint self total_budget' =
     \<lparr>con_A = np_ones (n_budget_steps self),
      con_lb = np_zeros 1,
      con_ub = map (\<lambda>v. v * total_budget' / spend_scaler self) (np_ones 1)\<rparr>"

definition TimeBudgetOptimizer_set_constraints ::
  "TimeBudgetOptimizer \<Rightarrow> LinearConstraint list \<Rightarrow> TimeBudgetOptimizer" where
  "TimeBudgetOptimizer_set_constraints self cs = self\<lparr>constraints := cs\<rparr>"

definition TimeBudgetOptimizer_add_constraints ::
  "TimeBudgetOptimizer \<Rightarrow> LinearConstraint list \<Rightarrow> TimeBudgetOptimizer" where
  "TimeBudgetOptimizer_add_constraints self cs = self\<lparr>constraints := constraints self @ cs\<rparr>"

definition TimeBudgetOptimizer_init ::
  "shell_init \<Rightarrow> string \<Rightarrow> string \<Rightarrow> string list \<Rightarrow> real \<Rightarrow> real \<Rightarrow> real option
     \<Rightarrow> real list option \<Rightarrow> real \<Rightarrow> real \<Rightarrow> error + TimeBudgetOptimizer" where
  "TimeBudgetOptimizer_init MMMShell_init budget_start' budget_end' optim_channels'
       response_scaler' spend_scaler' total_budget_override weight' lb_ratio' ub_ratio' =
     (case MMMShell_init optim_channels' budget_start' budget_end' of
        Inl e \<Rightarrow> Inl e
      | Inr shell \<Rightarrow>
          (case loc_get (df shell) (input_mask shell) optim_channels' of
             Inl e \<Rightarrow> Inl e
           | Inr m \<Rightarrow>
               let arr = np_sum_axis1 m;
                   self = \<lparr>df = df shell, input_mask = input_mask shell,
                            base_comp_input = base_comp_input shell,
                            start = start shell, end' = end' shell,
                            optim_channels = optim_channels',
                            budget_start = start shell,
                            budget_end = end' shell,
                            response_scaler = response_scaler',
                            spend_scaler = spend_scaler',
                            constraints = [],
                            budget_mask = input_mask shell,
                            init_spend_matrix = m,
                            curr_spend_matrix = m,
                            n_optim_channels = length optim_channels',
                            total_budget = choose_total_budget total_budget_override (np_sum arr),
                            n_budget_steps = np_sum_mask (input_mask shell),
                            budget_bounds = \<lparr>bounds_lb = [], bounds_ub = []\<rparr>,
                            init_spend_array = arr,
                            curr_spend_array = arr,
                            weight = [],
                            lb_ratio = lb_ratio',
                            ub_ratio = ub_ratio'\<rparr>;
                   total_budget_constraint =
                     TimeBudgetOptimizer_generate_total_budget_constraint self (total_budget self);
                   self = TimeBudgetOptimizer_add_constraints self [total_budget_constraint];
                   self = self\<lparr>budget_bounds :=
                     \<lparr>bounds_lb = np_zeros (n_budget_steps self),
                      bounds_ub = map (\<lambda>v. PosInf) (np_ones (n_budget_steps self))\<rparr>\<rparr>;
                   self = (case weight' of
                             None \<Rightarrow> self\<lparr>weight :=
                                        map (\<lambda>v. v / np_sum2 (init_spend_matrix self))
                                          (np_sum_axis0 (n_optim_channels self)
                                             (init_spend_matrix self))\<rparr>
                           | Some w \<Rightarrow> self\<lparr>weight := w\<rparr>)
               in if length (weight self) = n_optim_channels self
                  then Inr self
                  else Inl (Exception
                    ''Input weight has different length from number of optimizing channels.'')))"

definition TimeBudgetOptimizer_get_df :: "TimeBudgetOptimizer \<Rightarrow> DataFrame" where
  "TimeBudgetOptimizer_get_df self = df self"

definition TimeBudgetOptimizer_get_current_state :: "TimeBudgetOptimizer \<Rightarrow> real list" where
  "TimeBudgetOptimizer_get_current_state self = curr_spend_array self"

definition TimeBudgetOptimizer_get_current_spend_matrix ::
  "TimeBudgetOptimizer \<Rightarrow> real list list" where
  "TimeBudgetOptimizer_get_current_spend_matrix self = curr_spend_matrix self"

definition TimeBudgetOptimizer_get_total_budget :: "TimeBudgetOptimizer \<Rightarrow> real" where
  "TimeBudgetOptimizer_get_total_budget self = total_budget self"

definition TimeBudgetOptimizer_get_init_state :: "TimeBudgetOptimizer \<Rightarrow> real list" where
  "TimeBudgetOptimizer_get_init_state self = init_spend_array self"

definition TimeBudgetOptimizer_get_init_spend_matrix ::
  "TimeBudgetOptimizer \<Rightarrow> real list list" where
  "TimeBudgetOptimizer_get_init_spend_matrix self = init_spend_matrix self"

definition TimeBudgetOptimizer_objective_func ::
  "TimeBudgetOptimizer \<Rightarrow> real list \<Rightarrow> error + real" where
  "TimeBudgetOptimizer_objective_func self spend = Inl (Exception abstract_objective_message)"

text \<open>
  The product \<open>np.expand_dims(optim_spend_array, -1) * np.ones((n_budget_steps,
  n_optim_channels)) * self.weight\<close> broadcasts the array of totals, as a column, along
  the rows and the weight along the columns.
\<close>

definition TimeBudgetOptimizer_sol ::
  "minimize \<Rightarrow> objective \<Rightarrow> TimeBudgetOptimizer \<Rightarrow> ndarray option \<Rightarrow> int \<Rightarrow> real \<Rightarrow> real
     \<Rightarrow> error + real list" where
  \<comment> \<open>the starting point, the options and the call \<open>sol = optim.minimize(...)\<close>; the value is \<open>sol.x\<close>\<close>
  "TimeBudgetOptimizer_sol minimize objective_func self init maxiter eps ftol =
     (let x0 = (case init of
                  None \<Rightarrow> map (\<lambda>v. v / spend_scaler self) (init_spend_array self)
                | Some a \<Rightarrow> map (\<lambda>v. v / spend_scaler self) (flatten a));
          opts = \<lparr>opt_disp = True, opt_maxiter = maxiter, opt_ftol = ftol, opt_eps = Some eps\<rparr>
      in minimize objective_func x0 ''SLSQP'' (budget_bounds self) (constraints self) opts)"

definition TimeBudgetOptimizer_optimize ::
  "minimize \<Rightarrow> objective \<Rightarrow> TimeBudgetOptimizer \<Rightarrow> ndarray option \<Rightarrow> int \<Rightarrow> real \<Rightarrow> real
     \<Rightarrow> error + (DataFrame \<times> TimeBudgetOptimizer)" where
  "TimeBudgetOptimizer_optimize minimize objective_func self init maxiter eps ftol =
     (case TimeBudgetOptimizer_sol minimize objective_func self init maxiter eps ftol of
           Inl e \<Rightarrow> Inl e
         | Inr sol_x \<Rightarrow>
             let optim_spend_array = map (\<lambda>v. v * spend_scaler self) sol_x;
                 optim_spend_array = map (\<lambda>v. np_round v 5) optim_spend_array
             in (case broadcast_len (length optim_spend_array) (n_budget_steps self) of
                  Inl e \<Rightarrow> Inl e
                | Inr nrows \<Rightarrow>
                    (case broadcast_len (n_optim_channels self) (length (weight self)) of
                       Inl e \<Rightarrow> Inl e
                     | Inr ncols \<Rightarrow>
                         let optim_spend_matrix =
                               map (\<lambda>a. map (\<lambda>w. a * 1 * w) (broadcast_to ncols (weight self)))
                                 (broadcast_to nrows optim_spend_array);
                             optim_spend_matrix = map (map (\<lambda>v. np_round v 5)) optim_spend_matrix
                         in (case loc_set (TimeBudgetOptimizer_get_df self) (budget_mask self)
                                    (optim_channels self) optim_spend_matrix of
                               Inl e \<Rightarrow> Inl e
                             | Inr optim_df \<Rightarrow>
                                 Inr (optim_df, self\<lparr>curr_spend_matrix := optim_spend_matrix,
                                                     curr_spend_array := optim_spend_array\<rparr>)))))"

section \<open>A small instance\<close>

text \<open>
  Three time steps, two channels, the window on the last two steps, a spend scaler of 2.
  The sample solver returns a third of its starting point, which is inside the bounds and
  under the budget, and whose rescaled entries are rounded at the fifth decimal.
\<close>

definition example_df :: DataFrame where
  "example_df = \<lparr>columns = [''tv'', ''web''], rows = [[1, 2], [3, 4], [5, 6]]\<rparr>"

definition example_shell :: MMMShell where
  "example_shell = \<lparr>df = example_df, input_mask = [False, True, True],
     base_comp_input = [1, 3], start = ''2020-01-02'', end' = ''2020-01-03''\<rparr>"

definition example_shell_init :: shell_init where
  "example_shell_init channels s e = Inr example_shell"

definition example_minimize :: minimize where
  "example_minimize f x0 method b cs opts = Inr (map (\<lambda>v. v / 3) x0)"


definition example_objective :: objective where
  "example_objective x = Inr (- sum_list x)"

definition example_full_grid :: BudgetOptimizer where
  "example_full_grid =
     \<lparr>df = example_df, input_mask = [False, True, True], base_comp_input = [1, 3],
      start = ''2020-01-02'', end' = ''2020-01-03'',
      optim_channels = [''tv'', ''web''], budget_start = ''2020-01-02'',
      budget_end = ''2020-01-03'', response_scaler = 1, spend_scaler = 2,
      constraints = [\<lparr>con_A = [1, 1, 1, 1], con_lb = [0], con_ub = [9]\<rparr>],
      budget_mask = [False, True, True],
      init_spend_matrix = [[3, 4], [5, 6]],
      curr_spend_matrix = [[3, 4], [5, 6]], n_optim_channels = 2,
      total_budget = 18, n_budget_steps = 2,
      budget_bounds = \<lparr>bounds_lb = [0, 0, 0, 0],
                       bounds_ub = [Finite 9, Finite 9, Finite 9, Finite 9]\<rparr>\<rparr>"

definition example_channel :: ChannelBudgetOptimizer where
  "example_channel =
     \<lparr>df = example_df, input_mask = [False, True, True], base_comp_input = [1, 3],
      start = ''2020-01-02'', end' = ''2020-01-03'',
      optim_channels = [''tv'', ''web''], budget_start = ''2020-01-02'',
      budget_end = ''2020-01-03'', response_scaler = 1, spend_scaler = 2,
      constraints = [\<lparr>con_A = [1, 1], con_lb = [0], con_ub = [9]\<rparr>],
      budget_mask = [False, True, True],
      init_spend_matrix = [[3, 4], [5, 6]],
      curr_spend_matrix = [[3, 4], [5, 6]], n_optim_channels = 2,
      total_budget = 18, n_budget_steps = 2,
      budget_bounds = \<lparr>bounds_lb = [0, 0], bounds_ub = [PosInf, PosInf]\<rparr>,
      init_spend_array = [8, 10], curr_spend_array = [8, 10],
      weight = [1 / 4, 3 / 4]\<rparr>"

definition example_time :: TimeBudgetOptimizer where
  "example_time =
     \<lparr>df = example_df, input_mask = [False, True, True], base_comp_input = [1, 3],
      start = ''2020-01-02'', end' = ''2020-01-03'',
      optim_channels = [''tv'', ''web''], budget_start = ''2020-01-02'',
      budget_end = ''2020-01-03'', response_scaler = 1, spend_scaler = 2,
      constraints = [\<lparr>con_A = [1, 1], con_lb = [0], con_ub = [9]\<rparr>],
      budget_mask = [False, True, True],
      init_spend_matrix = [[3, 4], [5, 6]],
      curr_spend_matrix = [[3, 4], [5, 6]], n_optim_channels = 2,
      total_budget = 18, n_budget_steps = 2,
      budget_bounds = \<lparr>bounds_lb = [0, 0], bounds_ub = [PosInf, PosInf]\<rparr>,
      init_spend_array = [7, 11], curr_spend_array = [7, 11],
      weight = [1 / 2, 1 / 2], lb_ratio = 1 / 20, ub_ratio = 5\<rparr>"

section \<open>Evaluating the small instance\<close>

lemmas example_defs =
  example_shell_init_def example_shell_def example_df_def
  loc_get_def loc_set_def np_sum_mask_def np_sum_def np_sum2_def np_sum_axis0_def np_sum_axis1_def
  choose_total_budget_def np_ones_def np_zeros_def Let_def

lemma example_full_grid_init:
  "BudgetOptimizer_init example_shell_init ''2020-01-02'' ''2020-01-03'' [''web'', ''tv''] 1 2 None
     = Inr example_full_grid"
  by (simp add: BudgetOptimizer_init_def example_defs example_full_grid_def numeral_eq_Suc
      BudgetOptimizer_generate_total_budget_constraint_def BudgetOptimizer_add_constraints_def)

lemma example_channel_init:
  "ChannelBudgetOptimizer_init example_shell_init ''2020-01-02'' ''2020-01-03'' [''tv'', ''web'']
       1 2 None (Some [1 / 4, 3 / 4])
     = Inr example_channel"
  by (simp add: ChannelBudgetOptimizer_init_def example_defs example_channel_def numeral_eq_Suc
      ChannelBudgetOptimizer_generate_total_budget_constraint_def
      ChannelBudgetOptimizer_add_constraints_def)

lemma example_time_init:
  "TimeBudgetOptimizer_init example_shell_init ''2020-01-02'' ''2020-01-03'' [''tv'', ''web'']
       1 2 None (Some [1 / 2, 1 / 2]) (1 / 20) 5
     = Inr example_time"
  by (simp add: TimeBudgetOptimizer_init_def example_defs example_time_def numeral_eq_Suc
      TimeBudgetOptimizer_generate_total_budget_constraint_def
      TimeBudgetOptimizer_add_constraints_def)

section \<open>The abstract objective\<close>

text \<open>
  Claim C7. \<open>objective_func\<close> of each of the three base classes raises the exception of an
  abstract objective, whatever the instance and whatever the spend vector: the body is
  the \<open>raise\<close> alone, so nothing is evaluated before it.
\<close>

theorem objective_func_unimplemented:
  "BudgetOptimizer_objective_func b spend =
     Inl (Exception ''Abstract objective function. Child class needs to override this method to have concrete result.'')
   \<and> ChannelBudgetOptimizer_objective_func c spend =
     Inl (Exception ''Abstract objective function. Child class needs to override this method to have concrete result.'')
   \<and> TimeBudgetOptimizer_objective_func t spend =
     Inl (Exception ''Abstract objective function. Child class needs to override this method to have concrete result.'')"
  by (simp add: BudgetOptimizer_objective_func_def ChannelBudgetOptimizer_objective_func_def
      TimeBudgetOptimizer_objective_func_def abstract_objective_message_def)

section \<open>What the constructors establish\<close>

lemma broadcast_len_same: "broadcast_len n n = Inr n"
  by (simp add: broadcast_len_def)

lemma column_indices_length:
  "column_indices cols cs = Inr js \<Longrightarrow> length js = length cs"
  by (induction cs arbitrary: js) (auto split: option.splits sum.splits)

lemma filter_zip_mask_length:
  "length rs = length msk \<Longrightarrow> length (filter snd (zip rs msk)) = length (filter (\<lambda>b. b) msk)"
  by (induction rs msk rule: list_induct2) auto

lemma loc_get_shape:
  assumes "loc_get frame msk chans = Inr m"
  shows "length m = np_sum_mask msk" and "\<And>r. r \<in> set m \<Longrightarrow> length r = length chans"
  using assms
  by (auto simp: loc_get_def np_sum_mask_def filter_zip_mask_length column_indices_length
      split: if_splits sum.splits)

lemma sum_axis0_total:
  "(\<And>r. r \<in> set m \<Longrightarrow> length r = n) \<Longrightarrow> sum_list (np_sum_axis0 n m) = sum_list (concat m)"
proof (induction m)
  case Nil
  then show ?case by (simp add: np_sum_axis0_def)
next
  case (Cons r m)
  have r: "map (\<lambda>j. r ! j) [0..<n] = r"
    using Cons.prems[of r] map_nth[of r] by auto
  have "sum_list (np_sum_axis0 n (r # m)) =
        sum_list (map (\<lambda>j. r ! j) [0..<n]) + sum_list (np_sum_axis0 n m)"
    by (simp add: np_sum_axis0_def sum_list_addf)
  with Cons r show ?case by simp
qed

lemma choose_total_budget_nonpositive:
  "v \<le> 0 \<Longrightarrow> choose_total_budget (Some v) s = choose_total_budget None s"
  by (simp add: choose_total_budget_def)

lemma sum_axis1_total: "sum_list (np_sum_axis1 m) = sum_list (concat m)"
  by (induction m) (simp_all add: np_sum_axis1_def)

lemma BudgetOptimizer_init_Inr:
  assumes "BudgetOptimizer_init si bs be ch rs ss tbo = Inr self"
  shows "\<exists>shell m. si (sort ch) bs be = Inr shell
           \<and> loc_get (df shell) (input_mask shell) (sort ch) = Inr m
           \<and> df self = df shell \<and> budget_mask self = input_mask shell
           \<and> optim_channels self = sort ch
           \<and> spend_scaler self = ss
           \<and> init_spend_matrix self = m \<and> curr_spend_matrix self = m
           \<and> n_optim_channels self = length ch
           \<and> n_budget_steps self = np_sum_mask (input_mask shell)
           \<and> total_budget self = choose_total_budget tbo (np_sum2 m)
           \<and> constraints self =
                [\<lparr>con_A = replicate (n_budget_steps self * n_optim_channels self) 1,
                  con_lb = [0], con_ub = [total_budget self / ss]\<rparr>]
           \<and> budget_bounds self =
                \<lparr>bounds_lb = replicate (n_budget_steps self * n_optim_channels self) 0,
                 bounds_ub = replicate (n_budget_steps self * n_optim_channels self)
                               (Finite (total_budget self / ss))\<rparr>"
  using assms
  by (auto simp: BudgetOptimizer_init_def Let_def np_ones_def np_zeros_def
      BudgetOptimizer_add_constraints_def BudgetOptimizer_generate_total_budget_constraint_def
      split: sum.splits)

lemma ChannelBudgetOptimizer_init_Inr:
  assumes "ChannelBudgetOptimizer_init si bs be ch rs ss tbo w = Inr self"
  shows "\<exists>shell m. si ch bs be = Inr shell
           \<and> loc_get (df shell) (input_mask shell) ch = Inr m
           \<and> df self = df shell \<and> budget_mask self = input_mask shell
           \<and> optim_channels self = ch
           \<and> spend_scaler self = ss
           \<and> init_spend_matrix self = m \<and> curr_spend_matrix self = m
           \<and> init_spend_array self = np_sum_axis0 (length ch) m
           \<and> curr_spend_array self = np_sum_axis0 (length ch) m
           \<and> n_optim_channels self = length ch
           \<and> n_budget_steps self = np_sum_mask (input_mask shell)
           \<and> total_budget self = choose_total_budget tbo (np_sum (np_sum_axis0 (length ch) m))
           \<and> weight self = (case w of
                 None \<Rightarrow> map (\<lambda>v. v / np_sum (base_comp_input shell)) (base_comp_input shell)
               | Some w' \<Rightarrow> w')
           \<and> length (weight self) = n_budget_steps self
           \<and> constraints self =
                [\<lparr>con_A = replicate (n_optim_channels self) 1,
                  con_lb = [0], con_ub = [total_budget self / ss]\<rparr>]
           \<and> budget_bounds self =
                \<lparr>bounds_lb = replicate (n_optim_channels self) 0,
                 bounds_ub = replicate (n_optim_channels self) PosInf\<rparr>"
  using assms
  by (auto simp: ChannelBudgetOptimizer_init_def Let_def np_ones_def np_zeros_def
      ChannelBudgetOptimizer_add_constraints_def
      ChannelBudgetOptimizer_generate_total_budget_constraint_def
      split: sum.splits option.splits if_splits)

lemma TimeBudgetOptimizer_init_Inr:
  assumes "TimeBudgetOptimizer_init si bs be ch rs ss tbo w lr ur = Inr self"
  shows "\<exists>shell m. si ch bs be = Inr shell
           \<and> loc_get (df shell) (input_mask shell) ch = Inr m
           \<and> df self = df shell \<and> budget_mask self = input_mask shell
           \<and> optim_channels self = ch
           \<and> spend_scaler self = ss
           \<and> init_spend_matrix self = m \<and> curr_spend_matrix self = m
           \<and> init_spend_array self = np_sum_axis1 m
           \<and> curr_spend_array self = np_sum_axis1 m
           \<and> n_optim_channels self = length ch
           \<and> n_budget_steps self = np_sum_mask (input_mask shell)
           \<and> total_budget self = choose_total_budget tbo (np_sum (np_sum_axis1 m))
           \<and> weight self = (case w of
                 None \<Rightarrow> map (\<lambda>v. v / np_sum2 m) (np_sum_axis0 (length ch) m)
               | Some w' \<Rightarrow> w')
           \<and> length (weight self) = n_optim_channels self
           \<and> lb_ratio self = lr \<and> ub_ratio self = ur
           \<and> constraints self =
                [\<lparr>con_A = replicate (n_budget_steps self) 1,
                  con_lb = [0], con_ub = [total_budget self / ss]\<rparr>]
           \<and> budget_bounds self =
                \<lparr>bounds_lb = replicate (n_budget_steps self) 0,
                 bounds_ub = replicate (n_budget_steps self) PosInf\<rparr>"
  using assms
  by (auto simp: TimeBudgetOptimizer_init_def Let_def np_ones_def np_zeros_def
      TimeBudgetOptimizer_add_constraints_def
      TimeBudgetOptimizer_generate_total_budget_constraint_def
      split: sum.splits option.splits if_splits)

section \<open>The total-budget constraint\<close>

text \<open>
  Claim C3. For each of the three allocators and every total budget,
  \<open>generate_total_budget_constraint\<close> returns one linear constraint: its coefficient
  vector is all ones over the decision dimension (steps times channels for the full
  grid, channels for the channel aggregate, steps for the time aggregate), its lower bound
  is 0 and its upper bound is the total budget divided by the spend scaler. The scaler is
  taken different from zero, where the quotient of the model is the quotient of numpy.
\<close>

theorem total_budget_constraint_all_ones:
  "(spend_scaler b \<noteq> 0 \<longrightarrow>
      BudgetOptimizer_generate_total_budget_constraint b budget =
        \<lparr>con_A = replicate (n_budget_steps b * n_optim_channels b) 1,
         con_lb = [0], con_ub = [budget / spend_scaler b]\<rparr>)
   \<and> (spend_scaler c \<noteq> 0 \<longrightarrow>
      ChannelBudgetOptimizer_generate_total_budget_constraint c budget =
        \<lparr>con_A = replicate (n_optim_channels c) 1,
         con_lb = [0], con_ub = [budget / spend_scaler c]\<rparr>)
   \<and> (spend_scaler t \<noteq> 0 \<longrightarrow>
      TimeBudgetOptimizer_generate_total_budget_constraint t budget =
        \<lparr>con_A = replicate (n_budget_steps t) 1,
         con_lb = [0], con_ub = [budget / spend_scaler t]\<rparr>)"
  by (simp add: BudgetOptimizer_generate_total_budget_constraint_def
      ChannelBudgetOptimizer_generate_total_budget_constraint_def
      TimeBudgetOptimizer_generate_total_budget_constraint_def np_ones_def np_zeros_def)

theorem total_budget_constraint_all_ones_witness:
  "spend_scaler example_full_grid \<noteq> 0 \<and> spend_scaler example_channel \<noteq> 0
   \<and> spend_scaler example_time \<noteq> 0
   \<and> BudgetOptimizer_generate_total_budget_constraint example_full_grid 18 =
     \<lparr>con_A = [1, 1, 1, 1], con_lb = [0], con_ub = [9]\<rparr>
   \<and> ChannelBudgetOptimizer_generate_total_budget_constraint example_channel 18 =
     \<lparr>con_A = [1, 1], con_lb = [0], con_ub = [9]\<rparr>
   \<and> TimeBudgetOptimizer_generate_total_budget_constraint example_time 18 =
     \<lparr>con_A = [1, 1], con_lb = [0], con_ub = [9]\<rparr>"
  using total_budget_constraint_all_ones
    [of example_full_grid 18 example_channel example_time]
  by (simp add: example_full_grid_def example_channel_def example_time_def numeral_eq_Suc)

section \<open>The bounds of the decision vector\<close>

text \<open>
  Claim C4. The bounds built by the constructor have lower bound 0 for every decision
  variable. The upper bound of every variable is the total budget divided by the spend
  scaler in the full-grid allocator (the scaler taken different from zero), and positive
  infinity in the channel-aggregate and time-aggregate allocators. The bounds are
  stated from the arguments of the constructor: there is one variable per step of the
  window of the shell and per channel passed in (full grid), per channel (channel
  aggregate), per step (time aggregate); the budget is the positive override or else the
  sum of the selected window; the scaler is the one passed in. The fields of the
  instance that hold these numbers agree with them.
\<close>

theorem decision_bounds:
  "(BudgetOptimizer_init si bs be ch rs ss tbo = Inr b \<and> ss \<noteq> 0 \<longrightarrow>
      (\<exists>shell m. si (sort ch) bs be = Inr shell
         \<and> loc_get (df shell) (input_mask shell) (sort ch) = Inr m
         \<and> n_budget_steps b = np_sum_mask (input_mask shell)
         \<and> n_optim_channels b = length ch
         \<and> spend_scaler b = ss
         \<and> total_budget b = choose_total_budget tbo (np_sum2 m)
         \<and> budget_bounds b =
             \<lparr>bounds_lb = replicate (np_sum_mask (input_mask shell) * length ch) 0,
              bounds_ub = replicate (np_sum_mask (input_mask shell) * length ch)
                            (Finite (choose_total_budget tbo (np_sum2 m) / ss))\<rparr>)
      \<and> budget_bounds b =
        \<lparr>bounds_lb = replicate (n_budget_steps b * n_optim_channels b) 0,
         bounds_ub = replicate (n_budget_steps b * n_optim_channels b)
                       (Finite (total_budget b / spend_scaler b))\<rparr>)
   \<and> (ChannelBudgetOptimizer_init si' bs' be' ch' rs' ss' tbo' w' = Inr c \<longrightarrow>
      (\<exists>shell. si' ch' bs' be' = Inr shell
         \<and> n_optim_channels c = length ch'
         \<and> budget_bounds c =
             \<lparr>bounds_lb = replicate (length ch') 0,
              bounds_ub = replicate (length ch') PosInf\<rparr>)
      \<and> budget_bounds c =
        \<lparr>bounds_lb = replicate (n_optim_channels c) 0,
         bounds_ub = replicate (n_optim_channels c) PosInf\<rparr>)
   \<and> (TimeBudgetOptimizer_init si'' bs'' be'' ch'' rs'' ss'' tbo'' w'' lr ur = Inr t \<longrightarrow>
      (\<exists>shell. si'' ch'' bs'' be'' = Inr shell
         \<and> n_budget_steps t = np_sum_mask (input_mask shell)
         \<and> budget_bounds t =
             \<lparr>bounds_lb = replicate (np_sum_mask (input_mask shell)) 0,
              bounds_ub = replicate (np_sum_mask (input_mask shell)) PosInf\<rparr>)
      \<and> budget_bounds t =
        \<lparr>bounds_lb = replicate (n_budget_steps t) 0,
         bounds_ub = replicate (n_budget_steps t) PosInf\<rparr>)"
proof (intro conjI impI)
  assume a: "BudgetOptimizer_init si bs be ch rs ss tbo = Inr b \<and> ss \<noteq> 0"
  then have i: "BudgetOptimizer_init si bs be ch rs ss tbo = Inr b" by simp
  from BudgetOptimizer_init_Inr[OF i] obtain shell m where
    f: "si (sort ch) bs be = Inr (shell :: MMMShell)"
       "loc_get (df shell) (input_mask shell) (sort ch) = Inr m"
       "n_budget_steps b = np_sum_mask (input_mask shell)"
       "n_optim_channels b = length ch"
       "spend_scaler b = ss"
       "total_budget b = choose_total_budget tbo (np_sum2 m)"
       "budget_bounds b =
          \<lparr>bounds_lb = replicate (n_budget_steps b * n_optim_channels b) 0,
           bounds_ub = replicate (n_budget_steps b * n_optim_channels b)
                         (Finite (total_budget b / ss))\<rparr>"
    by auto
  from f show "\<exists>shell m. si (sort ch) bs be = Inr shell
         \<and> loc_get (df shell) (input_mask shell) (sort ch) = Inr m
         \<and> n_budget_steps b = np_sum_mask (input_mask shell)
         \<and> n_optim_channels b = length ch
         \<and> spend_scaler b = ss
         \<and> total_budget b = choose_total_budget tbo (np_sum2 m)
         \<and> budget_bounds b =
             \<lparr>bounds_lb = replicate (np_sum_mask (input_mask shell) * length ch) 0,
              bounds_ub = replicate (np_sum_mask (input_mask shell) * length ch)
                            (Finite (choose_total_budget tbo (np_sum2 m) / ss))\<rparr>"
    by (intro exI[of _ shell] exI[of _ m]) simp
  from f show "budget_bounds b =
        \<lparr>bounds_lb = replicate (n_budget_steps b * n_optim_channels b) 0,
         bounds_ub = replicate (n_budget_steps b * n_optim_channels b)
                       (Finite (total_budget b / spend_scaler b))\<rparr>"
    by simp
next
  assume i: "ChannelBudgetOptimizer_init si' bs' be' ch' rs' ss' tbo' w' = Inr c"
  from ChannelBudgetOptimizer_init_Inr[OF i] obtain shell where
    f: "si' ch' bs' be' = Inr (shell :: MMMShell)"
       "n_optim_channels c = length ch'"
       "budget_bounds c =
          \<lparr>bounds_lb = replicate (n_optim_channels c) 0,
           bounds_ub = replicate (n_optim_channels c) PosInf\<rparr>"
    by auto
  from f show "\<exists>shell. si' ch' bs' be' = Inr shell
         \<and> n_optim_channels c = length ch'
         \<and> budget_bounds c =
             \<lparr>bounds_lb = replicate (length ch') 0,
              bounds_ub = replicate (length ch') PosInf\<rparr>"
    by (intro exI[of _ shell]) simp
  from f show "budget_bounds c =
        \<lparr>bounds_lb = replicate (n_optim_channels c) 0,
         bounds_ub = replicate (n_optim_channels c) PosInf\<rparr>"
    by simp
next
  assume i: "TimeBudgetOptimizer_init si'' bs'' be'' ch'' rs'' ss'' tbo'' w'' lr ur = Inr t"
  from TimeBudgetOptimizer_init_Inr[OF i] obtain shell where
    f: "si'' ch'' bs'' be'' = Inr (shell :: MMMShell)"
       "n_budget_steps t = np_sum_mask (input_mask shell)"
       "budget_bounds t =
          \<lparr>bounds_lb = replicate (n_budget_steps t) 0,
           bounds_ub = replicate (n_budget_steps t) PosInf\<rparr>"
    by auto
  from f show "\<exists>shell. si'' ch'' bs'' be'' = Inr shell
         \<and> n_budget_steps t = np_sum_mask (input_mask shell)
         \<and> budget_bounds t =
             \<lparr>bounds_lb = replicate (np_sum_mask (input_mask shell)) 0,
              bounds_ub = replicate (np_sum_mask (input_mask shell)) PosInf\<rparr>"
    by (intro exI[of _ shell]) simp
  from f show "budget_bounds t =
        \<lparr>bounds_lb = replicate (n_budget_steps t) 0,
         bounds_ub = replicate (n_budget_steps t) PosInf\<rparr>"
    by simp
qed

theorem decision_bounds_witness:
  "BudgetOptimizer_init example_shell_init ''2020-01-02'' ''2020-01-03'' [''web'', ''tv''] 1 2 None
     = Inr example_full_grid
   \<and> (2 :: real) \<noteq> 0
   \<and> budget_bounds example_full_grid =
       \<lparr>bounds_lb = [0, 0, 0, 0],
        bounds_ub = [Finite (18 / 2), Finite (18 / 2), Finite (18 / 2), Finite (18 / 2)]\<rparr>
   \<and> (\<exists>b. BudgetOptimizer_init example_shell_init ''2020-01-02'' ''2020-01-03'' [''tv'']
            1 (1 / 2) (Some 7) = Inr b
          \<and> budget_bounds b = \<lparr>bounds_lb = [0, 0], bounds_ub = [Finite 14, Finite 14]\<rparr>)
   \<and> ChannelBudgetOptimizer_init example_shell_init ''2020-01-02'' ''2020-01-03'' [''tv'', ''web'']
       1 2 None (Some [1 / 4, 3 / 4]) = Inr example_channel
   \<and> budget_bounds example_channel = \<lparr>bounds_lb = [0, 0], bounds_ub = [PosInf, PosInf]\<rparr>
   \<and> TimeBudgetOptimizer_init example_shell_init ''2020-01-02'' ''2020-01-03'' [''tv'', ''web'']
       1 2 None (Some [1 / 2, 1 / 2]) (1 / 20) 5 = Inr example_time
   \<and> budget_bounds example_time = \<lparr>bounds_lb = [0, 0], bounds_ub = [PosInf, PosInf]\<rparr>"
proof -
  have g: "loc_get (df example_shell) (input_mask example_shell) (sort [''web'', ''tv''])
             = Inr [[3, 4], [5, 6]]"
    "loc_get (df example_shell) (input_mask example_shell) (sort [''tv'']) = Inr [[3], [5]]"
    by code_simp+
  have n: "np_sum_mask (input_mask example_shell) = 2"
    by code_simp
  have r: "replicate 4 x = [x, x, x, x]" "replicate 2 x = [x, x]" for x :: 'a
    by (simp_all add: numeral_eq_Suc)
  have "\<exists>shell m. example_shell_init (sort [''web'', ''tv'']) ''2020-01-02'' ''2020-01-03''
            = Inr shell
         \<and> loc_get (df shell) (input_mask shell) (sort [''web'', ''tv'']) = Inr m
         \<and> budget_bounds example_full_grid =
             \<lparr>bounds_lb = replicate (np_sum_mask (input_mask shell) * length [''web'', ''tv'']) 0,
              bounds_ub = replicate (np_sum_mask (input_mask shell) * length [''web'', ''tv''])
                            (Finite (choose_total_budget None (np_sum2 m) / 2))\<rparr>"
    using decision_bounds[of example_shell_init "''2020-01-02''" "''2020-01-03''"
        "[''web'', ''tv'']" 1 2 None example_full_grid, THEN conjunct1] example_full_grid_init
    by fastforce
  then obtain shell m where
    f: "example_shell_init (sort [''web'', ''tv'']) ''2020-01-02'' ''2020-01-03'' = Inr shell"
       "loc_get (df shell) (input_mask shell) (sort [''web'', ''tv'']) = Inr m"
       "budget_bounds example_full_grid =
             \<lparr>bounds_lb = replicate (np_sum_mask (input_mask shell) * length [''web'', ''tv'']) 0,
              bounds_ub = replicate (np_sum_mask (input_mask shell) * length [''web'', ''tv''])
                            (Finite (choose_total_budget None (np_sum2 m) / 2))\<rparr>"
    by blast
  from f(1) have s1: "shell = example_shell" by (simp add: example_shell_init_def)
  from f(2) have m1: "m = [[3, 4], [5, 6]]" unfolding s1 g by simp
  have full: "budget_bounds example_full_grid =
       \<lparr>bounds_lb = [0, 0, 0, 0],
        bounds_ub = [Finite (18 / 2), Finite (18 / 2), Finite (18 / 2), Finite (18 / 2)]\<rparr>"
    using f(3) unfolding s1 m1 n by (simp add: choose_total_budget_def np_sum2_def r)
  have "\<exists>b. BudgetOptimizer_init example_shell_init ''2020-01-02'' ''2020-01-03'' [''tv'']
            1 (1 / 2) (Some 7) = Inr b"
    by (simp add: BudgetOptimizer_init_def example_defs)
  then obtain b where b: "BudgetOptimizer_init example_shell_init ''2020-01-02''
      ''2020-01-03'' [''tv''] 1 (1 / 2) (Some 7) = Inr b" ..
  have "\<exists>shell m. example_shell_init (sort [''tv'']) ''2020-01-02'' ''2020-01-03'' = Inr shell
         \<and> budget_bounds b =
             \<lparr>bounds_lb = replicate (np_sum_mask (input_mask shell) * length [''tv'']) 0,
              bounds_ub = replicate (np_sum_mask (input_mask shell) * length [''tv''])
                            (Finite (choose_total_budget (Some 7) (np_sum2 m) / (1 / 2)))\<rparr>"
    using decision_bounds[of example_shell_init "''2020-01-02''" "''2020-01-03''"
        "[''tv'']" 1 "1 / 2" "Some 7" b, THEN conjunct1] b
    by fastforce
  then obtain shell2 m2 where
    f2: "example_shell_init (sort [''tv'']) ''2020-01-02'' ''2020-01-03'' = Inr shell2"
       "budget_bounds b =
             \<lparr>bounds_lb = replicate (np_sum_mask (input_mask shell2) * length [''tv'']) 0,
              bounds_ub = replicate (np_sum_mask (input_mask shell2) * length [''tv''])
                            (Finite (choose_total_budget (Some 7) (np_sum2 m2) / (1 / 2)))\<rparr>"
    by blast
  from f2(1) have s2: "shell2 = example_shell" by (simp add: example_shell_init_def)
  have second: "budget_bounds b = \<lparr>bounds_lb = [0, 0], bounds_ub = [Finite 14, Finite 14]\<rparr>"
    using f2(2) unfolding s2 n by (simp add: choose_total_budget_def r)
  have "budget_bounds example_channel =
        \<lparr>bounds_lb = replicate (n_optim_channels example_channel) 0,
         bounds_ub = replicate (n_optim_channels example_channel) PosInf\<rparr>"
    using decision_bounds[of _ _ _ _ _ 0 _ _ example_shell_init "''2020-01-02''"
        "''2020-01-03''" "[''tv'', ''web'']" 1 2 None "Some [1 / 4, 3 / 4]" example_channel,
        THEN conjunct2, THEN conjunct1]
      example_channel_init
    by blast
  moreover have "n_optim_channels example_channel = 2" by (simp add: example_channel_def)
  ultimately have chan:
    "budget_bounds example_channel = \<lparr>bounds_lb = [0, 0], bounds_ub = [PosInf, PosInf]\<rparr>"
    by (simp add: r)
  have "budget_bounds example_time =
        \<lparr>bounds_lb = replicate (n_budget_steps example_time) 0,
         bounds_ub = replicate (n_budget_steps example_time) PosInf\<rparr>"
    using decision_bounds[of _ _ _ _ _ 0 _ _ _ _ _ _ _ _ _ _ _ example_shell_init
        "''2020-01-02''" "''2020-01-03''" "[''tv'', ''web'']" 1 2 None "Some [1 / 2, 1 / 2]"
        "1 / 20" 5 example_time, THEN conjunct2, THEN conjunct2]
      example_time_init
    by blast
  moreover have "n_budget_steps example_time = 2" by (simp add: example_time_def)
  ultimately have tm:
    "budget_bounds example_time = \<lparr>bounds_lb = [0, 0], bounds_ub = [PosInf, PosInf]\<rparr>"
    by (simp add: r)
  from full second chan tm b example_full_grid_init example_channel_init example_time_init
  show ?thesis by auto
qed

section \<open>The default total budget\<close>

text \<open>
  Claim C5. When \<open>total_budget_override\<close> is None, the total budget of each of the three
  allocators is the sum of the initial spend matrix, which is the selection of the
  optimized channels of the data frame over the rows of the window.
\<close>

theorem total_budget_default:
  "(BudgetOptimizer_init si bs be ch rs ss None = Inr b \<longrightarrow>
      BudgetOptimizer_get_total_budget b = sum_list (concat (BudgetOptimizer_get_init_state b))
      \<and> (\<exists>shell. si (sort ch) bs be = Inr shell
            \<and> loc_get (df shell) (input_mask shell) (sort ch) = Inr (init_spend_matrix b)))
   \<and> (ChannelBudgetOptimizer_init si' bs' be' ch' rs' ss' None w' = Inr c \<longrightarrow>
      ChannelBudgetOptimizer_get_total_budget c =
        sum_list (concat (ChannelBudgetOptimizer_get_init_spend_matrix c))
      \<and> (\<exists>shell. si' ch' bs' be' = Inr shell
            \<and> loc_get (df shell) (input_mask shell) ch' = Inr (init_spend_matrix c)))
   \<and> (TimeBudgetOptimizer_init si'' bs'' be'' ch'' rs'' ss'' None w'' lr ur = Inr t \<longrightarrow>
      TimeBudgetOptimizer_get_total_budget t =
        sum_list (concat (TimeBudgetOptimizer_get_init_spend_matrix t))
      \<and> (\<exists>shell. si'' ch'' bs'' be'' = Inr shell
            \<and> loc_get (df shell) (input_mask shell) ch'' = Inr (init_spend_matrix t)))"
proof (intro conjI impI)
  assume a: "BudgetOptimizer_init si bs be ch rs ss None = Inr b"
  from BudgetOptimizer_init_Inr[OF a]
  show "BudgetOptimizer_get_total_budget b = sum_list (concat (BudgetOptimizer_get_init_state b))"
    by (auto simp: BudgetOptimizer_get_total_budget_def BudgetOptimizer_get_init_state_def
        choose_total_budget_def np_sum2_def)
  from BudgetOptimizer_init_Inr[OF a]
  show "\<exists>shell. si (sort ch) bs be = Inr shell
            \<and> loc_get (df shell) (input_mask shell) (sort ch) = Inr (init_spend_matrix b)"
    by auto
next
  assume a: "ChannelBudgetOptimizer_init si' bs' be' ch' rs' ss' None w' = Inr c"
  from ChannelBudgetOptimizer_init_Inr[OF a] obtain shell m where
    m: "si' ch' bs' be' = Inr shell" "loc_get (df shell) (input_mask shell) ch' = Inr m"
       "init_spend_matrix c = m"
       "total_budget c = choose_total_budget None (np_sum (np_sum_axis0 (length ch') m))"
    by auto
  have "sum_list (np_sum_axis0 (length ch') m) = sum_list (concat m)"
    using loc_get_shape(2)[OF m(2)] by (rule sum_axis0_total)
  with m show "ChannelBudgetOptimizer_get_total_budget c =
        sum_list (concat (ChannelBudgetOptimizer_get_init_spend_matrix c))"
    by (simp add: ChannelBudgetOptimizer_get_total_budget_def
        ChannelBudgetOptimizer_get_init_spend_matrix_def choose_total_budget_def np_sum_def)
  from m show "\<exists>shell. si' ch' bs' be' = Inr shell
            \<and> loc_get (df shell) (input_mask shell) ch' = Inr (init_spend_matrix c)"
    by auto
next
  assume a: "TimeBudgetOptimizer_init si'' bs'' be'' ch'' rs'' ss'' None w'' lr ur = Inr t"
  from TimeBudgetOptimizer_init_Inr[OF a] obtain shell m where
    m: "si'' ch'' bs'' be'' = Inr shell" "loc_get (df shell) (input_mask shell) ch'' = Inr m"
       "init_spend_matrix t = m"
       "total_budget t = choose_total_budget None (np_sum (np_sum_axis1 m))"
    by auto
  from m show "TimeBudgetOptimizer_get_total_budget t =
        sum_list (concat (TimeBudgetOptimizer_get_init_spend_matrix t))"
    by (simp add: TimeBudgetOptimizer_get_total_budget_def
        TimeBudgetOptimizer_get_init_spend_matrix_def choose_total_budget_def np_sum_def
        sum_axis1_total)
  from m show "\<exists>shell. si'' ch'' bs'' be'' = Inr shell
            \<and> loc_get (df shell) (input_mask shell) ch'' = Inr (init_spend_matrix t)"
    by auto
qed

theorem total_budget_default_witness:
  "BudgetOptimizer_init example_shell_init ''2020-01-02'' ''2020-01-03'' [''web'', ''tv''] 1 2 None
     = Inr example_full_grid
   \<and> BudgetOptimizer_get_total_budget example_full_grid = 3 + 4 + 5 + 6
   \<and> ChannelBudgetOptimizer_init example_shell_init ''2020-01-02'' ''2020-01-03'' [''tv'', ''web'']
       1 2 None (Some [1 / 4, 3 / 4]) = Inr example_channel
   \<and> ChannelBudgetOptimizer_get_total_budget example_channel = 3 + 4 + 5 + 6
   \<and> TimeBudgetOptimizer_init example_shell_init ''2020-01-02'' ''2020-01-03'' [''tv'', ''web'']
       1 2 None (Some [1 / 2, 1 / 2]) (1 / 20) 5 = Inr example_time
   \<and> TimeBudgetOptimizer_get_total_budget example_time = 3 + 4 + 5 + 6"
proof -
  note d = total_budget_default[of example_shell_init "''2020-01-02''" "''2020-01-03''"
      "[''web'', ''tv'']" 1 2 example_full_grid
      example_shell_init "''2020-01-02''" "''2020-01-03''" "[''tv'', ''web'']" 1 2
      "Some [1 / 4, 3 / 4]" example_channel
      example_shell_init "''2020-01-02''" "''2020-01-03''" "[''tv'', ''web'']" 1 2
      "Some [1 / 2, 1 / 2]" "1 / 20" 5 example_time]
  have n: "BudgetOptimizer_get_init_state example_full_grid = [[3, 4], [5, 6]]"
    "ChannelBudgetOptimizer_get_init_spend_matrix example_channel = [[3, 4], [5, 6]]"
    "TimeBudgetOptimizer_get_init_spend_matrix example_time = [[3, 4], [5, 6]]"
    by (simp_all add: example_full_grid_def example_channel_def example_time_def
        BudgetOptimizer_get_init_state_def ChannelBudgetOptimizer_get_init_spend_matrix_def
        TimeBudgetOptimizer_get_init_spend_matrix_def)
  show ?thesis
    using d example_full_grid_init example_channel_init example_time_init
    by (simp add: n)
qed

section \<open>An override that is not positive\<close>

text \<open>
  Claim C10. A \<open>total_budget_override\<close> that is zero or negative is ignored by each of
  the three constructors: the construction has the outcome it has with no override, so
  no error comes from the override, and the total budget is the sum of the initial spend
  matrix. An override is honoured exactly when it is positive: the total budget is then
  the override.
\<close>

theorem nonpositive_override_ignored:
  "(v \<le> 0 \<longrightarrow>
      BudgetOptimizer_init si bs be ch rs ss (Some v) = BudgetOptimizer_init si bs be ch rs ss None
      \<and> ChannelBudgetOptimizer_init si bs be ch rs ss (Some v) w =
          ChannelBudgetOptimizer_init si bs be ch rs ss None w
      \<and> TimeBudgetOptimizer_init si bs be ch rs ss (Some v) w lr ur =
          TimeBudgetOptimizer_init si bs be ch rs ss None w lr ur)
   \<and> (v \<le> 0 \<and> BudgetOptimizer_init si bs be ch rs ss (Some v) = Inr b \<longrightarrow>
        total_budget b = sum_list (concat (init_spend_matrix b)))
   \<and> (v \<le> 0 \<and> ChannelBudgetOptimizer_init si bs be ch rs ss (Some v) w = Inr c \<longrightarrow>
        total_budget c = sum_list (concat (init_spend_matrix c)))
   \<and> (v \<le> 0 \<and> TimeBudgetOptimizer_init si bs be ch rs ss (Some v) w lr ur = Inr t \<longrightarrow>
        total_budget t = sum_list (concat (init_spend_matrix t)))
   \<and> (0 < v \<and> BudgetOptimizer_init si bs be ch rs ss (Some v) = Inr b \<longrightarrow> total_budget b = v)
   \<and> (0 < v \<and> ChannelBudgetOptimizer_init si bs be ch rs ss (Some v) w = Inr c \<longrightarrow>
        total_budget c = v)
   \<and> (0 < v \<and> TimeBudgetOptimizer_init si bs be ch rs ss (Some v) w lr ur = Inr t \<longrightarrow>
        total_budget t = v)"
proof (intro conjI impI)
  assume v: "v \<le> 0"
  show "BudgetOptimizer_init si bs be ch rs ss (Some v) = BudgetOptimizer_init si bs be ch rs ss None"
    by (simp add: BudgetOptimizer_init_def choose_total_budget_nonpositive[OF v] cong: sum.case_cong)
  show "ChannelBudgetOptimizer_init si bs be ch rs ss (Some v) w =
          ChannelBudgetOptimizer_init si bs be ch rs ss None w"
    by (simp add: ChannelBudgetOptimizer_init_def choose_total_budget_nonpositive[OF v] cong: sum.case_cong)
  show "TimeBudgetOptimizer_init si bs be ch rs ss (Some v) w lr ur =
          TimeBudgetOptimizer_init si bs be ch rs ss None w lr ur"
    by (simp add: TimeBudgetOptimizer_init_def choose_total_budget_nonpositive[OF v] cong: sum.case_cong)
next
  assume a: "v \<le> 0 \<and> BudgetOptimizer_init si bs be ch rs ss (Some v) = Inr b"
  then show "total_budget b = sum_list (concat (init_spend_matrix b))"
    using BudgetOptimizer_init_Inr[of si bs be ch rs ss "Some v" b]
    by (auto simp: choose_total_budget_def np_sum2_def)
next
  assume a: "v \<le> 0 \<and> ChannelBudgetOptimizer_init si bs be ch rs ss (Some v) w = Inr c"
  then have a2: "ChannelBudgetOptimizer_init si bs be ch rs ss (Some v) w = Inr c" by simp
  from ChannelBudgetOptimizer_init_Inr[OF a2] obtain shell m where
    m: "loc_get (df (shell :: MMMShell)) (input_mask shell) ch = Inr m" "init_spend_matrix c = m"
       "total_budget c = choose_total_budget (Some v) (np_sum (np_sum_axis0 (length ch) m))"
    by auto
  have "sum_list (np_sum_axis0 (length ch) m) = sum_list (concat m)"
    using loc_get_shape(2)[OF m(1)] by (rule sum_axis0_total)
  with m a show "total_budget c = sum_list (concat (init_spend_matrix c))"
    by (simp add: choose_total_budget_def np_sum_def)
next
  assume a: "v \<le> 0 \<and> TimeBudgetOptimizer_init si bs be ch rs ss (Some v) w lr ur = Inr t"
  then show "total_budget t = sum_list (concat (init_spend_matrix t))"
    using TimeBudgetOptimizer_init_Inr[of si bs be ch rs ss "Some v" w lr ur t]
    by (auto simp: choose_total_budget_def np_sum_def sum_axis1_total)
next
  assume "0 < v \<and> BudgetOptimizer_init si bs be ch rs ss (Some v) = Inr b"
  then show "total_budget b = v"
    using BudgetOptimizer_init_Inr[of si bs be ch rs ss "Some v" b]
    by (auto simp: choose_total_budget_def)
next
  assume "0 < v \<and> ChannelBudgetOptimizer_init si bs be ch rs ss (Some v) w = Inr c"
  then show "total_budget c = v"
    using ChannelBudgetOptimizer_init_Inr[of si bs be ch rs ss "Some v" w c]
    by (auto simp: choose_total_budget_def)
next
  assume "0 < v \<and> TimeBudgetOptimizer_init si bs be ch rs ss (Some v) w lr ur = Inr t"
  then show "total_budget t = v"
    using TimeBudgetOptimizer_init_Inr[of si bs be ch rs ss "Some v" w lr ur t]
    by (auto simp: choose_total_budget_def)
qed


theorem nonpositive_override_ignored_witness:
  "BudgetOptimizer_init example_shell_init ''2020-01-02'' ''2020-01-03'' [''web'', ''tv''] 1 2
       (Some (- 5)) = Inr example_full_grid
   \<and> total_budget example_full_grid = 3 + 4 + 5 + 6
   \<and> ChannelBudgetOptimizer_init example_shell_init ''2020-01-02'' ''2020-01-03'' [''tv'', ''web'']
       1 2 (Some (- 5)) (Some [1 / 4, 3 / 4]) = Inr example_channel
   \<and> total_budget example_channel = 3 + 4 + 5 + 6
   \<and> TimeBudgetOptimizer_init example_shell_init ''2020-01-02'' ''2020-01-03'' [''tv'', ''web'']
       1 2 (Some (- 5)) (Some [1 / 2, 1 / 2]) (1 / 20) 5 = Inr example_time
   \<and> total_budget example_time = 3 + 4 + 5 + 6
   \<and> (\<exists>b. BudgetOptimizer_init example_shell_init ''2020-01-02'' ''2020-01-03'' [''web'', ''tv'']
          1 2 (Some 7) = Inr b \<and> total_budget b = 7)
   \<and> (\<exists>c. ChannelBudgetOptimizer_init example_shell_init ''2020-01-02'' ''2020-01-03''
          [''tv'', ''web''] 1 2 (Some 7) (Some [1 / 4, 3 / 4]) = Inr c \<and> total_budget c = 7)
   \<and> (\<exists>t. TimeBudgetOptimizer_init example_shell_init ''2020-01-02'' ''2020-01-03''
          [''tv'', ''web''] 1 2 (Some 7) (Some [1 / 2, 1 / 2]) (1 / 20) 5 = Inr t
          \<and> total_budget t = 7)"
proof -
  have neg: "BudgetOptimizer_init example_shell_init ''2020-01-02'' ''2020-01-03''
        [''web'', ''tv''] 1 2 (Some (- 5)) = Inr example_full_grid"
    "total_budget example_full_grid = 3 + 4 + 5 + 6"
    using nonpositive_override_ignored[of "- 5" example_shell_init "''2020-01-02''"
        "''2020-01-03''" "[''web'', ''tv'']" 1 2 None 0 0 example_full_grid]
      example_full_grid_init
    by (simp_all add: example_full_grid_def)
  have negc: "ChannelBudgetOptimizer_init example_shell_init ''2020-01-02'' ''2020-01-03''
        [''tv'', ''web''] 1 2 (Some (- 5)) (Some [1 / 4, 3 / 4]) = Inr example_channel"
    "total_budget example_channel = 3 + 4 + 5 + 6"
    using nonpositive_override_ignored[of "- 5" example_shell_init "''2020-01-02''"
        "''2020-01-03''" "[''tv'', ''web'']" 1 2 "Some [1 / 4, 3 / 4]" 0 0 _ example_channel]
      example_channel_init
    by (simp_all add: example_channel_def)
  have negt: "TimeBudgetOptimizer_init example_shell_init ''2020-01-02'' ''2020-01-03''
        [''tv'', ''web''] 1 2 (Some (- 5)) (Some [1 / 2, 1 / 2]) (1 / 20) 5 = Inr example_time"
    "total_budget example_time = 3 + 4 + 5 + 6"
    using nonpositive_override_ignored[of "- 5" example_shell_init "''2020-01-02''"
        "''2020-01-03''" "[''tv'', ''web'']" 1 2 "Some [1 / 2, 1 / 2]" "1 / 20" 5 _ _
        example_time]
      example_time_init
    by (simp_all add: example_time_def)
  have "\<exists>b. BudgetOptimizer_init example_shell_init ''2020-01-02'' ''2020-01-03''
          [''web'', ''tv''] 1 2 (Some 7) = Inr b"
    by (simp add: BudgetOptimizer_init_def example_defs)
  then obtain b where b: "BudgetOptimizer_init example_shell_init ''2020-01-02''
      ''2020-01-03'' [''web'', ''tv''] 1 2 (Some 7) = Inr b" ..
  have pb: "total_budget b = 7"
    using nonpositive_override_ignored[of 7 example_shell_init "''2020-01-02''"
        "''2020-01-03''" "[''web'', ''tv'']" 1 2 None 0 0 b] b
    by simp
  have "\<exists>c. ChannelBudgetOptimizer_init example_shell_init ''2020-01-02'' ''2020-01-03''
          [''tv'', ''web''] 1 2 (Some 7) (Some [1 / 4, 3 / 4]) = Inr c"
    by (simp add: ChannelBudgetOptimizer_init_def example_defs
        ChannelBudgetOptimizer_add_constraints_def)
  then obtain c where c: "ChannelBudgetOptimizer_init example_shell_init ''2020-01-02''
      ''2020-01-03'' [''tv'', ''web''] 1 2 (Some 7) (Some [1 / 4, 3 / 4]) = Inr c" ..
  have pc: "total_budget c = 7"
    using nonpositive_override_ignored[of 7 example_shell_init "''2020-01-02''"
        "''2020-01-03''" "[''tv'', ''web'']" 1 2 "Some [1 / 4, 3 / 4]" 0 0 _ c] c
    by simp
  have "\<exists>t. TimeBudgetOptimizer_init example_shell_init ''2020-01-02'' ''2020-01-03''
          [''tv'', ''web''] 1 2 (Some 7) (Some [1 / 2, 1 / 2]) (1 / 20) 5 = Inr t"
    by (simp add: TimeBudgetOptimizer_init_def example_defs
        TimeBudgetOptimizer_add_constraints_def)
  then obtain t where t: "TimeBudgetOptimizer_init example_shell_init ''2020-01-02''
      ''2020-01-03'' [''tv'', ''web''] 1 2 (Some 7) (Some [1 / 2, 1 / 2]) (1 / 20) 5 = Inr t" ..
  have pt: "total_budget t = 7"
    using nonpositive_override_ignored[of 7 example_shell_init "''2020-01-02''"
        "''2020-01-03''" "[''tv'', ''web'']" 1 2 "Some [1 / 2, 1 / 2]" "1 / 20" 5 _ _ t] t
    by simp
  from neg negc negt b pb c pc t pt show ?thesis by blast
qed

section \<open>A weight of the wrong length\<close>

text \<open>
  Claim C6. When the shell is built and the supplied weight has a length other than the
  number of steps of the window (channel aggregate) or the number of optimized channels
  (time aggregate), the constructor raises: it returns no instance, so \<open>optimize\<close> cannot
  be called and no solve runs. The exception is the one of the length check whenever the
  selection of the window from the data frame, which comes first, has not raised itself.
\<close>

theorem wrong_weight_length_rejected:
  "(si ch bs be = Inr shell \<and> length w \<noteq> np_sum_mask (input_mask shell) \<longrightarrow>
      isl (ChannelBudgetOptimizer_init si bs be ch rs ss tbo (Some w))
      \<and> ChannelBudgetOptimizer_init si bs be ch rs ss tbo (Some w) =
          (case loc_get (df shell) (input_mask shell) ch of
             Inl e \<Rightarrow> Inl e
           | Inr m \<Rightarrow> Inl (Exception ''Input weight has different length from budget period.'')))
   \<and> (si' ch' bs' be' = Inr shell' \<and> length w' \<noteq> length ch' \<longrightarrow>
      isl (TimeBudgetOptimizer_init si' bs' be' ch' rs' ss' tbo' (Some w') lr ur)
      \<and> TimeBudgetOptimizer_init si' bs' be' ch' rs' ss' tbo' (Some w') lr ur =
          (case loc_get (df shell') (input_mask shell') ch' of
             Inl e \<Rightarrow> Inl e
           | Inr m \<Rightarrow> Inl (Exception
               ''Input weight has different length from number of optimizing channels.'')))"
  by (auto simp: ChannelBudgetOptimizer_init_def TimeBudgetOptimizer_init_def Let_def
      ChannelBudgetOptimizer_add_constraints_def TimeBudgetOptimizer_add_constraints_def
      split: sum.splits)

theorem wrong_weight_length_rejected_witness:
  "example_shell_init [''tv'', ''web''] ''2020-01-02'' ''2020-01-03'' = Inr example_shell
   \<and> length [1 :: real] \<noteq> np_sum_mask (input_mask example_shell)
   \<and> ChannelBudgetOptimizer_init example_shell_init ''2020-01-02'' ''2020-01-03''
        [''tv'', ''web''] 1 2 None (Some [1]) =
      Inl (Exception ''Input weight has different length from budget period.'')
   \<and> length [1 / 3 :: real, 1 / 3, 1 / 3] \<noteq> length [''tv'', ''web'']
   \<and> TimeBudgetOptimizer_init example_shell_init ''2020-01-02'' ''2020-01-03''
        [''tv'', ''web''] 1 2 None (Some [1 / 3, 1 / 3, 1 / 3]) (1 / 20) 5 =
      Inl (Exception ''Input weight has different length from number of optimizing channels.'')"
proof -
  have s: "example_shell_init [''tv'', ''web''] ''2020-01-02'' ''2020-01-03'' = Inr example_shell"
    by (simp add: example_shell_init_def)
  have l: "length [1 :: real] \<noteq> np_sum_mask (input_mask example_shell)"
    "length [1 / 3 :: real, 1 / 3, 1 / 3] \<noteq> length [''tv'', ''web'']"
    by (simp_all add: example_shell_def np_sum_mask_def)
  have g: "loc_get (df example_shell) (input_mask example_shell) [''tv'', ''web'']
            = Inr [[3, 4], [5, 6]]"
    by (simp add: example_defs)
  show ?thesis
    using wrong_weight_length_rejected[of example_shell_init "[''tv'', ''web'']"
        "''2020-01-02''" "''2020-01-03''" example_shell "[1]" 1 2 None
        example_shell_init "[''tv'', ''web'']"
        "''2020-01-02''" "''2020-01-03''" example_shell "[1 / 3, 1 / 3, 1 / 3]" 1 2 None
        "1 / 20" 5] s l g
    by simp
qed

section \<open>Running the small instance\<close>

lemma example_full_grid_optimize:
  "BudgetOptimizer_optimize example_minimize example_objective example_full_grid None 2 None
       (1 / 10 ^ 7)
     = Inr (example_df\<lparr>rows := [[1, 2], [1, 133333 / 100000], [166667 / 100000, 2]]\<rparr>,
            example_full_grid\<lparr>curr_spend_matrix := [[1, 133333 / 100000], [166667 / 100000, 2]]\<rparr>)"
  by code_simp

lemma example_channel_optimize:
  "ChannelBudgetOptimizer_optimize example_minimize example_objective example_channel None 2
       (1 / 1000) (1 / 10 ^ 7)
     = Inr (example_df\<lparr>rows := [[1, 2], [66667 / 100000, 83333 / 100000], [2, 5 / 2]]\<rparr>,
            example_channel\<lparr>curr_spend_matrix := [[66667 / 100000, 83333 / 100000], [2, 5 / 2]],
                             curr_spend_array := [266667 / 100000, 333333 / 100000]\<rparr>)"
  by code_simp

lemma example_time_optimize:
  "TimeBudgetOptimizer_optimize example_minimize example_objective example_time None 2
       (1 / 1000) (1 / 10 ^ 7)
     = Inr (example_df\<lparr>rows := [[1, 2], [116666 / 100000, 116666 / 100000],
                                   [183334 / 100000, 183334 / 100000]]\<rparr>,
            example_time\<lparr>curr_spend_matrix := [[116666 / 100000, 116666 / 100000],
                                                  [183334 / 100000, 183334 / 100000]],
                          curr_spend_array := [233333 / 100000, 366667 / 100000]\<rparr>)"
  by code_simp

section \<open>The ratios of the time-aggregate allocator\<close>

text \<open>
  Claim C9. \<open>lb_ratio\<close> and \<open>ub_ratio\<close> are stored by the constructor of the
  time-aggregate allocator and read by nothing. With other values and the same other
  arguments the constructor raises the same error or builds the same instance up to the
  two stored fields; the bounds, the constraints and the total-budget constraint of an
  instance do not depend on the two fields; and \<open>optimize\<close>, with the same solver and the
  same objective, raises the same error or returns the same data frame and the same new
  state up to the two fields.
\<close>

theorem ratios_never_consumed:
  "TimeBudgetOptimizer_init si bs be ch rs ss tbo w lr' ur' =
     map_sum id (\<lambda>t. t\<lparr>lb_ratio := lr', ub_ratio := ur'\<rparr>)
       (TimeBudgetOptimizer_init si bs be ch rs ss tbo w lr ur)
   \<and> (TimeBudgetOptimizer_init si bs be ch rs ss tbo w lr ur = Inr t0 \<longrightarrow>
        lb_ratio t0 = lr \<and> ub_ratio t0 = ur)
   \<and> budget_bounds (t\<lparr>lb_ratio := lr', ub_ratio := ur'\<rparr>) = budget_bounds t
   \<and> constraints (t\<lparr>lb_ratio := lr', ub_ratio := ur'\<rparr>) = constraints t
   \<and> TimeBudgetOptimizer_generate_total_budget_constraint (t\<lparr>lb_ratio := lr', ub_ratio := ur'\<rparr>)
        budget = TimeBudgetOptimizer_generate_total_budget_constraint t budget
   \<and> TimeBudgetOptimizer_optimize mn obj (t\<lparr>lb_ratio := lr', ub_ratio := ur'\<rparr>) i mi e f =
     map_sum id (\<lambda>(d, t'). (d, t'\<lparr>lb_ratio := lr', ub_ratio := ur'\<rparr>))
       (TimeBudgetOptimizer_optimize mn obj t i mi e f)"
proof (intro conjI)
  show "TimeBudgetOptimizer_init si bs be ch rs ss tbo w lr' ur' =
     map_sum id (\<lambda>t. t\<lparr>lb_ratio := lr', ub_ratio := ur'\<rparr>)
       (TimeBudgetOptimizer_init si bs be ch rs ss tbo w lr ur)"
    by (simp add: TimeBudgetOptimizer_init_def Let_def TimeBudgetOptimizer_add_constraints_def
        TimeBudgetOptimizer_generate_total_budget_constraint_def
        split: sum.splits option.splits)
  show "TimeBudgetOptimizer_optimize mn obj (t\<lparr>lb_ratio := lr', ub_ratio := ur'\<rparr>) i mi e f =
     map_sum id (\<lambda>(d, t'). (d, t'\<lparr>lb_ratio := lr', ub_ratio := ur'\<rparr>))
       (TimeBudgetOptimizer_optimize mn obj t i mi e f)"
  proof -
    have sol: "TimeBudgetOptimizer_sol mn obj (t\<lparr>lb_ratio := lr', ub_ratio := ur'\<rparr>) i mi e f =
               TimeBudgetOptimizer_sol mn obj t i mi e f"
      by (cases i) (simp_all add: TimeBudgetOptimizer_sol_def)
    show ?thesis
      unfolding TimeBudgetOptimizer_optimize_def sol
      by (simp add: Let_def TimeBudgetOptimizer_get_df_def split: sum.split)
  qed
  show "TimeBudgetOptimizer_init si bs be ch rs ss tbo w lr ur = Inr t0 \<longrightarrow>
        lb_ratio t0 = lr \<and> ub_ratio t0 = ur"
    using TimeBudgetOptimizer_init_Inr[of si bs be ch rs ss tbo w lr ur t0] by auto
qed (simp_all add: TimeBudgetOptimizer_generate_total_budget_constraint_def)

theorem ratios_never_consumed_witness:
  "TimeBudgetOptimizer_init example_shell_init ''2020-01-02'' ''2020-01-03'' [''tv'', ''web'']
       1 2 None (Some [1 / 2, 1 / 2]) (1 / 20) 5 = Inr example_time
   \<and> lb_ratio example_time = 1 / 20 \<and> ub_ratio example_time = 5
   \<and> TimeBudgetOptimizer_init example_shell_init ''2020-01-02'' ''2020-01-03'' [''tv'', ''web'']
       1 2 None (Some [1 / 2, 1 / 2]) (1 / 2) 2
       = Inr (example_time\<lparr>lb_ratio := 1 / 2, ub_ratio := 2\<rparr>)
   \<and> TimeBudgetOptimizer_optimize example_minimize example_objective
         (example_time\<lparr>lb_ratio := 1 / 2, ub_ratio := 2\<rparr>) None 2 (1 / 1000) (1 / 10 ^ 7) =
       map_sum id (\<lambda>(d, t'). (d, t'\<lparr>lb_ratio := 1 / 2, ub_ratio := 2\<rparr>))
         (TimeBudgetOptimizer_optimize example_minimize example_objective example_time None 2
            (1 / 1000) (1 / 10 ^ 7))"
  using ratios_never_consumed[of example_shell_init "''2020-01-02''" "''2020-01-03''"
      "[''tv'', ''web'']" 1 2 None "Some [1 / 2, 1 / 2]" "1 / 2" 2 "1 / 20" 5 example_time
      example_time 18 example_minimize example_objective None 2 "1 / 1000" "1 / 10 ^ 7"]
    example_time_init
  by simp

section \<open>The initial state and the current state\<close>

text \<open>
  Claim C8. An \<open>optimize\<close> that returns leaves the initial state as it was:
  \<open>get_init_state\<close> (and \<open>get_init_spend_matrix\<close>) give the same value on the instance
  after the call as before. \<open>get_current_state\<close> then gives the solution of the solver,
  rescaled by the spend scaler and rounded to 5 decimals: reshaped to rows of one entry
  per channel for the full grid, the vector itself for the two aggregate allocators. An
  \<open>optimize\<close> that raises assigns nothing, and in the model returns no new instance.
\<close>

theorem init_state_survives_optimize:
  "(BudgetOptimizer_optimize mn obj b i mi e f = Inr (d, b') \<longrightarrow>
      BudgetOptimizer_get_init_state b' = BudgetOptimizer_get_init_state b
      \<and> (\<exists>x m. BudgetOptimizer_sol mn obj b i mi e f = Inr x
            \<and> reshape_rows x (n_optim_channels b) = Inr m
            \<and> BudgetOptimizer_get_current_state b' =
                map (map (\<lambda>v. np_round (v * spend_scaler b) 5)) m))
   \<and> (ChannelBudgetOptimizer_optimize mn obj c i mi ec f = Inr (dc, c') \<longrightarrow>
      ChannelBudgetOptimizer_get_init_state c' = ChannelBudgetOptimizer_get_init_state c
      \<and> ChannelBudgetOptimizer_get_init_spend_matrix c' =
          ChannelBudgetOptimizer_get_init_spend_matrix c
      \<and> (\<exists>x. ChannelBudgetOptimizer_sol mn obj c i mi ec f = Inr x
            \<and> ChannelBudgetOptimizer_get_current_state c' =
                map (\<lambda>v. np_round (v * spend_scaler c) 5) x))
   \<and> (TimeBudgetOptimizer_optimize mn obj t i mi ec f = Inr (dt, t') \<longrightarrow>
      TimeBudgetOptimizer_get_init_state t' = TimeBudgetOptimizer_get_init_state t
      \<and> TimeBudgetOptimizer_get_init_spend_matrix t' =
          TimeBudgetOptimizer_get_init_spend_matrix t
      \<and> (\<exists>x. TimeBudgetOptimizer_sol mn obj t i mi ec f = Inr x
            \<and> TimeBudgetOptimizer_get_current_state t' =
                map (\<lambda>v. np_round (v * spend_scaler t) 5) x))"
proof (intro conjI impI)
  assume a: "BudgetOptimizer_optimize mn obj b i mi e f = Inr (d, b')"
  then obtain x m where
    x: "BudgetOptimizer_sol mn obj b i mi e f = Inr x"
       "reshape_rows x (n_optim_channels b) = Inr m"
       "b' = b\<lparr>curr_spend_matrix := map (map (\<lambda>v. np_round v 5))
                                      (map (map (\<lambda>v. v * spend_scaler b)) m)\<rparr>"
    by (auto simp: BudgetOptimizer_optimize_def Let_def split: sum.splits)
  from x show "BudgetOptimizer_get_init_state b' = BudgetOptimizer_get_init_state b"
    by (simp add: BudgetOptimizer_get_init_state_def)
  from x show "\<exists>x m. BudgetOptimizer_sol mn obj b i mi e f = Inr x
            \<and> reshape_rows x (n_optim_channels b) = Inr m
            \<and> BudgetOptimizer_get_current_state b' =
                map (map (\<lambda>v. np_round (v * spend_scaler b) 5)) m"
    by (simp add: BudgetOptimizer_get_current_state_def comp_def)
next
  assume a: "ChannelBudgetOptimizer_optimize mn obj c i mi ec f = Inr (dc, c')"
  then obtain x mx where
    x: "ChannelBudgetOptimizer_sol mn obj c i mi ec f = Inr x"
       "c' = c\<lparr>curr_spend_matrix := mx,
               curr_spend_array := map (\<lambda>v. np_round v 5) (map (\<lambda>v. v * spend_scaler c) x)\<rparr>"
    by (auto simp: ChannelBudgetOptimizer_optimize_def Let_def split: sum.splits)
  from x show "ChannelBudgetOptimizer_get_init_state c' = ChannelBudgetOptimizer_get_init_state c"
    by (simp add: ChannelBudgetOptimizer_get_init_state_def)
  from x show "ChannelBudgetOptimizer_get_init_spend_matrix c' =
          ChannelBudgetOptimizer_get_init_spend_matrix c"
    by (simp add: ChannelBudgetOptimizer_get_init_spend_matrix_def)
  from x show "\<exists>x. ChannelBudgetOptimizer_sol mn obj c i mi ec f = Inr x
            \<and> ChannelBudgetOptimizer_get_current_state c' =
                map (\<lambda>v. np_round (v * spend_scaler c) 5) x"
    by (simp add: ChannelBudgetOptimizer_get_current_state_def comp_def)
next
  assume a: "TimeBudgetOptimizer_optimize mn obj t i mi ec f = Inr (dt, t')"
  then obtain x mx where
    x: "TimeBudgetOptimizer_sol mn obj t i mi ec f = Inr x"
       "t' = t\<lparr>curr_spend_matrix := mx,
               curr_spend_array := map (\<lambda>v. np_round v 5) (map (\<lambda>v. v * spend_scaler t) x)\<rparr>"
    by (auto simp: TimeBudgetOptimizer_optimize_def Let_def split: sum.splits)
  from x show "TimeBudgetOptimizer_get_init_state t' = TimeBudgetOptimizer_get_init_state t"
    by (simp add: TimeBudgetOptimizer_get_init_state_def)
  from x show "TimeBudgetOptimizer_get_init_spend_matrix t' =
          TimeBudgetOptimizer_get_init_spend_matrix t"
    by (simp add: TimeBudgetOptimizer_get_init_spend_matrix_def)
  from x show "\<exists>x. TimeBudgetOptimizer_sol mn obj t i mi ec f = Inr x
            \<and> TimeBudgetOptimizer_get_current_state t' =
                map (\<lambda>v. np_round (v * spend_scaler t) 5) x"
    by (simp add: TimeBudgetOptimizer_get_current_state_def comp_def)
qed


theorem init_state_survives_optimize_witness:
  "BudgetOptimizer_optimize example_minimize example_objective example_full_grid None 2 None
       (1 / 10 ^ 7)
     = Inr (example_df\<lparr>rows := [[1, 2], [1, 133333 / 100000], [166667 / 100000, 2]]\<rparr>,
            example_full_grid\<lparr>curr_spend_matrix := [[1, 133333 / 100000], [166667 / 100000, 2]]\<rparr>)
   \<and> BudgetOptimizer_get_init_state
        (example_full_grid\<lparr>curr_spend_matrix := [[1, 133333 / 100000], [166667 / 100000, 2]]\<rparr>)
       = BudgetOptimizer_get_init_state example_full_grid
   \<and> ChannelBudgetOptimizer_optimize example_minimize example_objective example_channel None 2
       (1 / 1000) (1 / 10 ^ 7)
     = Inr (example_df\<lparr>rows := [[1, 2], [66667 / 100000, 83333 / 100000], [2, 5 / 2]]\<rparr>,
            example_channel\<lparr>curr_spend_matrix := [[66667 / 100000, 83333 / 100000], [2, 5 / 2]],
                             curr_spend_array := [266667 / 100000, 333333 / 100000]\<rparr>)
   \<and> ChannelBudgetOptimizer_get_init_state
        (example_channel\<lparr>curr_spend_matrix := [[66667 / 100000, 83333 / 100000], [2, 5 / 2]],
                         curr_spend_array := [266667 / 100000, 333333 / 100000]\<rparr>)
       = ChannelBudgetOptimizer_get_init_state example_channel
   \<and> TimeBudgetOptimizer_optimize example_minimize example_objective example_time None 2
       (1 / 1000) (1 / 10 ^ 7)
     = Inr (example_df\<lparr>rows := [[1, 2], [116666 / 100000, 116666 / 100000],
                                   [183334 / 100000, 183334 / 100000]]\<rparr>,
            example_time\<lparr>curr_spend_matrix := [[116666 / 100000, 116666 / 100000],
                                                  [183334 / 100000, 183334 / 100000]],
                          curr_spend_array := [233333 / 100000, 366667 / 100000]\<rparr>)
   \<and> TimeBudgetOptimizer_get_init_state
        (example_time\<lparr>curr_spend_matrix := [[116666 / 100000, 116666 / 100000],
                                              [183334 / 100000, 183334 / 100000]],
                      curr_spend_array := [233333 / 100000, 366667 / 100000]\<rparr>)
       = TimeBudgetOptimizer_get_init_state example_time"
  using init_state_survives_optimize[of example_minimize example_objective example_full_grid
      None 2 None "1 / 10 ^ 7"
      "example_df\<lparr>rows := [[1, 2], [1, 133333 / 100000], [166667 / 100000, 2]]\<rparr>"
      "example_full_grid\<lparr>curr_spend_matrix := [[1, 133333 / 100000], [166667 / 100000, 2]]\<rparr>"
      example_channel "1 / 1000"
      "example_df\<lparr>rows := [[1, 2], [66667 / 100000, 83333 / 100000], [2, 5 / 2]]\<rparr>"
      "example_channel\<lparr>curr_spend_matrix := [[66667 / 100000, 83333 / 100000], [2, 5 / 2]],
                        curr_spend_array := [266667 / 100000, 333333 / 100000]\<rparr>"
      example_time
      "example_df\<lparr>rows := [[1, 2], [116666 / 100000, 116666 / 100000],
                              [183334 / 100000, 183334 / 100000]]\<rparr>"
      "example_time\<lparr>curr_spend_matrix := [[116666 / 100000, 116666 / 100000],
                                             [183334 / 100000, 183334 / 100000]],
                     curr_spend_array := [233333 / 100000, 366667 / 100000]\<rparr>"]
    example_full_grid_optimize example_channel_optimize example_time_optimize
  by simp

section \<open>The matrix rebuilt from the aggregate\<close>

text \<open>
  Claim C2. After an \<open>optimize\<close> that returns, on an instance whose weight has the
  length its constructor checks, and when the new current state has one total per channel
  (channel aggregate) or per step (time aggregate), the current spend matrix is, cell by
  cell, the total times the weight rounded to 5 decimals:
  \<open>matrix[s, k] = round(total[k] * weight[s], 5)\<close> for the channel aggregate and
  \<open>matrix[s, k] = round(total[s] * weight[k], 5)\<close> for the time aggregate.
\<close>

theorem aggregate_matrix_is_total_times_weight:
  "(ChannelBudgetOptimizer_optimize mn obj c i mi e f = Inr (d, c')
      \<and> length (weight c) = n_budget_steps c
      \<and> length (ChannelBudgetOptimizer_get_current_state c') = n_optim_channels c \<longrightarrow>
      ChannelBudgetOptimizer_get_current_spend_matrix c' =
        map (\<lambda>w. map (\<lambda>a. np_round (a * w) 5) (ChannelBudgetOptimizer_get_current_state c'))
          (weight c)
      \<and> (\<forall>s < n_budget_steps c. \<forall>k < n_optim_channels c.
            ChannelBudgetOptimizer_get_current_spend_matrix c' ! s ! k =
              np_round (ChannelBudgetOptimizer_get_current_state c' ! k * weight c ! s) 5))
   \<and> (TimeBudgetOptimizer_optimize mn obj t i mi e f = Inr (dt, t')
      \<and> length (weight t) = n_optim_channels t
      \<and> length (TimeBudgetOptimizer_get_current_state t') = n_budget_steps t \<longrightarrow>
      TimeBudgetOptimizer_get_current_spend_matrix t' =
        map (\<lambda>a. map (\<lambda>w. np_round (a * w) 5) (weight t))
          (TimeBudgetOptimizer_get_current_state t')
      \<and> (\<forall>s < n_budget_steps t. \<forall>k < n_optim_channels t.
            TimeBudgetOptimizer_get_current_spend_matrix t' ! s ! k =
              np_round (TimeBudgetOptimizer_get_current_state t' ! s * weight t ! k) 5))"
proof (intro conjI impI)
  assume a: "ChannelBudgetOptimizer_optimize mn obj c i mi e f = Inr (d, c')
      \<and> length (weight c) = n_budget_steps c
      \<and> length (ChannelBudgetOptimizer_get_current_state c') = n_optim_channels c"
  then have m: "ChannelBudgetOptimizer_get_current_spend_matrix c' =
        map (\<lambda>w. map (\<lambda>a. np_round (a * w) 5) (ChannelBudgetOptimizer_get_current_state c'))
          (weight c)"
    by (auto simp: ChannelBudgetOptimizer_optimize_def Let_def broadcast_len_same
        broadcast_to_def ChannelBudgetOptimizer_get_current_spend_matrix_def
        ChannelBudgetOptimizer_get_current_state_def comp_def split: sum.splits)
  then show "ChannelBudgetOptimizer_get_current_spend_matrix c' =
        map (\<lambda>w. map (\<lambda>a. np_round (a * w) 5) (ChannelBudgetOptimizer_get_current_state c'))
          (weight c)" .
  from a m show "\<forall>s < n_budget_steps c. \<forall>k < n_optim_channels c.
            ChannelBudgetOptimizer_get_current_spend_matrix c' ! s ! k =
              np_round (ChannelBudgetOptimizer_get_current_state c' ! k * weight c ! s) 5"
    by simp
next
  assume a: "TimeBudgetOptimizer_optimize mn obj t i mi e f = Inr (dt, t')
      \<and> length (weight t) = n_optim_channels t
      \<and> length (TimeBudgetOptimizer_get_current_state t') = n_budget_steps t"
  then have m: "TimeBudgetOptimizer_get_current_spend_matrix t' =
        map (\<lambda>a. map (\<lambda>w. np_round (a * w) 5) (weight t))
          (TimeBudgetOptimizer_get_current_state t')"
    by (auto simp: TimeBudgetOptimizer_optimize_def Let_def broadcast_len_same
        broadcast_to_def TimeBudgetOptimizer_get_current_spend_matrix_def
        TimeBudgetOptimizer_get_current_state_def comp_def split: sum.splits)
  then show "TimeBudgetOptimizer_get_current_spend_matrix t' =
        map (\<lambda>a. map (\<lambda>w. np_round (a * w) 5) (weight t))
          (TimeBudgetOptimizer_get_current_state t')" .
  from a m show "\<forall>s < n_budget_steps t. \<forall>k < n_optim_channels t.
            TimeBudgetOptimizer_get_current_spend_matrix t' ! s ! k =
              np_round (TimeBudgetOptimizer_get_current_state t' ! s * weight t ! k) 5"
    by simp
qed


theorem aggregate_matrix_is_total_times_weight_witness:
  "ChannelBudgetOptimizer_optimize example_minimize example_objective example_channel None 2
       (1 / 1000) (1 / 10 ^ 7)
     = Inr (example_df\<lparr>rows := [[1, 2], [66667 / 100000, 83333 / 100000], [2, 5 / 2]]\<rparr>,
            example_channel\<lparr>curr_spend_matrix := [[66667 / 100000, 83333 / 100000], [2, 5 / 2]],
                             curr_spend_array := [266667 / 100000, 333333 / 100000]\<rparr>)
   \<and> length (weight example_channel) = n_budget_steps example_channel
   \<and> length [266667 / 100000, 333333 / 100000 :: real] = n_optim_channels example_channel
   \<and> [[66667 / 100000, 83333 / 100000], [2, 5 / 2]] =
       map (\<lambda>w. map (\<lambda>a. np_round (a * w) 5) [266667 / 100000, 333333 / 100000]) [1 / 4, 3 / 4]
   \<and> TimeBudgetOptimizer_optimize example_minimize example_objective example_time None 2
       (1 / 1000) (1 / 10 ^ 7)
     = Inr (example_df\<lparr>rows := [[1, 2], [116666 / 100000, 116666 / 100000],
                                   [183334 / 100000, 183334 / 100000]]\<rparr>,
            example_time\<lparr>curr_spend_matrix := [[116666 / 100000, 116666 / 100000],
                                                  [183334 / 100000, 183334 / 100000]],
                          curr_spend_array := [233333 / 100000, 366667 / 100000]\<rparr>)
   \<and> length (weight example_time) = n_optim_channels example_time
   \<and> length [233333 / 100000, 366667 / 100000 :: real] = n_budget_steps example_time
   \<and> [[116666 / 100000, 116666 / 100000], [183334 / 100000, 183334 / 100000]] =
       map (\<lambda>a. map (\<lambda>w. np_round (a * w) 5) [1 / 2, 1 / 2]) [233333 / 100000, 366667 / 100000]"
proof -
  have l: "length (weight example_channel) = n_budget_steps example_channel"
    "length (weight example_time) = n_optim_channels example_time"
    "n_optim_channels example_channel = 2" "n_budget_steps example_time = 2"
    "weight example_channel = [1 / 4, 3 / 4]" "weight example_time = [1 / 2, 1 / 2]"
    by (simp_all add: example_channel_def example_time_def)
  show ?thesis
    using aggregate_matrix_is_total_times_weight[of example_minimize example_objective
      example_channel None 2 "1 / 1000" "1 / 10 ^ 7"
      "example_df\<lparr>rows := [[1, 2], [66667 / 100000, 83333 / 100000], [2, 5 / 2]]\<rparr>"
      "example_channel\<lparr>curr_spend_matrix := [[66667 / 100000, 83333 / 100000], [2, 5 / 2]],
                        curr_spend_array := [266667 / 100000, 333333 / 100000]\<rparr>"
      example_time
      "example_df\<lparr>rows := [[1, 2], [116666 / 100000, 116666 / 100000],
                              [183334 / 100000, 183334 / 100000]]\<rparr>"
      "example_time\<lparr>curr_spend_matrix := [[116666 / 100000, 116666 / 100000],
                                             [183334 / 100000, 183334 / 100000]],
                     curr_spend_array := [233333 / 100000, 366667 / 100000]\<rparr>"]
      example_channel_optimize example_time_optimize l
    by (simp add: ChannelBudgetOptimizer_get_current_spend_matrix_def
        ChannelBudgetOptimizer_get_current_state_def
        TimeBudgetOptimizer_get_current_spend_matrix_def
        TimeBudgetOptimizer_get_current_state_def)
qed

section \<open>Rounding, reshaping and sums\<close>



















section \<open>The spend after a solve\<close>







end
